theory Spec2Isabelle
  imports Main "HOL-Library.Word"
begin

section \<open>The edition tools manager (src/editor/components/edition.ts)\<close>

text \<open>
  A value of TypeScript type \<open>any\<close> that is handed to \<open>setObject\<close> and
  \<open>isSupported\<close>: \<open>None\<close> is \<open>null\<close> (the initial \<open>currentObject\<close>), \<open>Some x\<close> a
  scene object.

  \<open>IEditionTool\<close> is declared in a file that is not part of the sources; the manager
  reads \<open>divId\<close>, \<open>tabName\<close> and \<open>isSupported\<close> of a tool, and calls its \<open>update\<close>
  and its \<open>tool.onFinishChange\<close>. The three members that are read are the fields of the
  record; \<open>isSupported\<close> is taken to depend on the object alone. The two calls change
  the tool's own widget only and are recorded in the manager's list of outgoing calls.

  The member \<open>object\<close> of a tool is set in the tool files and changes while the manager
  runs. It is not a field of the record: whoever reads it is given the objects of the
  tools at that moment, as a function from tools to objects.
\<close>

record 'o IEditionTool =
  divId :: string
  tabName :: string
  isSupported :: "'o option \<Rightarrow> bool"

record 'o StackElement =
  baseObject :: "'o option"
  property :: string
  to_value :: "'o option"
  from_value :: "'o option"
  object_value :: "'o option"

text \<open>
  The arrow function that \<open>setObject\<close> passes to \<open>t.tool.onFinishChange\<close> for the tool
  \<open>t\<close>. It is called with \<open>(property, result, object, initialValue)\<close> and reads
  \<open>t.object\<close> of the tool it was made for when it runs: \<open>objects\<close> are the objects of the
  tools at that moment. Its result is the list of the calls it makes to \<open>UndoRedo.Push\<close>,
  each with the element pushed.
\<close>

type_synonym 'o finishChangeCallback =
  "('o IEditionTool \<Rightarrow> 'o option) \<Rightarrow> string \<Rightarrow> 'o option \<Rightarrow> 'o option \<Rightarrow> 'o option
     \<Rightarrow> 'o StackElement list"

definition undoRedoCallback :: "'o IEditionTool \<Rightarrow> 'o finishChangeCallback" where
  "undoRedoCallback t objects prop result obj initialValue =
     [\<lparr> baseObject = objects t, property = prop, to_value = result,
         from_value = initialValue, object_value = obj \<rparr>]"

datatype 'o call =
    Update "'o IEditionTool" "'o option"
  | OnFinishChange "'o IEditionTool" "'o finishChangeCallback"
  | DispatchResize

text \<open>
  The fields of the class, together with what the class changes outside itself: the
  visibility of the \<open>div\<close> containers (by element id), the visibility of the tabs of the
  tab bar (by tab id), and the calls made to the tools and to \<open>window\<close>.
  An id that has no element (no tab) is mapped to \<open>None\<close>.

  The containers are found through the selector \<open>'#' + divId\<close>. \<open>selector\<close> is what the
  selector engine of the page makes of such a selector when the id is not made of word
  characters: \<open>selector i e\<close> holds when \<open>'#' + i\<close> matches the element with the id \<open>e\<close>.
  What it matches is taken not to depend on which elements are visible.
\<close>

record 'o EditorEditionTools =
  tools :: "'o IEditionTool list"
  currentTools :: "'o IEditionTool list"
  root :: string
  tabs :: "string \<rightharpoonup> bool"
  currentObject :: "'o option"
  lastTabName :: "string option"
  containers :: "string \<rightharpoonup> bool"
  calls :: "'o call list"
  selector :: "string \<Rightarrow> string \<Rightarrow> bool"

text \<open>
  \<open>tabs.show(id)\<close> and \<open>tabs.hide(id)\<close>: the tab with that id becomes visible or hidden;
  nothing happens when there is none.
\<close>

definition setVisible :: "string \<Rightarrow> bool \<Rightarrow> (string \<rightharpoonup> bool) \<Rightarrow> (string \<rightharpoonup> bool)" where
  "setVisible i b m = (case m i of None \<Rightarrow> m | Some _ \<Rightarrow> m(i \<mapsto> b))"

text \<open>
  \<open>$('#' + id)\<close>. When the id is not empty and made of letters, digits, \<open>_\<close> and \<open>-\<close>
  only, the library looks the element up by its id. Any other string makes \<open>'#' + id\<close> a
  selector with further parts (\<open>'#NODE.TOOL'\<close> asks for the class \<open>TOOL\<close>), and the
  selector engine decides what it matches.
\<close>

definition wordChar :: "char \<Rightarrow> bool" where
  "wordChar c \<longleftrightarrow>
     ((48::nat) \<le> of_char c \<and> of_char c \<le> (57::nat)) \<or>
     ((65::nat) \<le> of_char c \<and> of_char c \<le> (90::nat)) \<or>
     ((97::nat) \<le> of_char c \<and> of_char c \<le> (122::nat)) \<or>
     c = CHR ''_'' \<or> c = CHR ''-''"

definition quickId :: "string \<Rightarrow> bool" where
  "quickId i \<longleftrightarrow> i \<noteq> [] \<and> list_all wordChar i"

definition jqMatches :: "(string \<Rightarrow> string \<Rightarrow> bool) \<Rightarrow> string \<Rightarrow> string \<Rightarrow> bool" where
  "jqMatches sel i e = (if quickId i then e = i else sel i e)"

text \<open>
  \<open>$('#' + id).show()\<close> and \<open>$('#' + id).hide()\<close>: every element that the selector
  matches becomes visible or hidden.
\<close>

definition jqSetVisible ::
  "(string \<Rightarrow> string \<Rightarrow> bool) \<Rightarrow> string \<Rightarrow> bool \<Rightarrow> (string \<rightharpoonup> bool) \<Rightarrow> (string \<rightharpoonup> bool)" where
  "jqSetVisible sel i b m =
     (\<lambda>e. if jqMatches sel i e then (case m e of None \<Rightarrow> None | Some _ \<Rightarrow> Some b) else m e)"

definition falsy :: "string option \<Rightarrow> bool" where
  "falsy s = (s = None \<or> s = Some [])"

text \<open>The state the constructor starts from, before it adds the tools.\<close>

definition init :: "(string \<Rightarrow> string \<Rightarrow> bool) \<Rightarrow> string option \<Rightarrow> 'o EditorEditionTools" where
  "init sel rootDiv =
     \<lparr> tools = [], currentTools = [],
       root = (case rootDiv of None \<Rightarrow> ''EDITION'' | Some r \<Rightarrow> if r = [] then ''EDITION'' else r),
       tabs = Map.empty, currentObject = None, lastTabName = None,
       containers = Map.empty, calls = [], selector = sel \<rparr>"

text \<open>
  \<open>addTool\<close>: a container with the id \<open>divId\<close> is appended to the root element, which is
  there; a new element is visible, and an element that had the id before stays the one
  found under it. The selector \<open>'#' + divId\<close> is then hidden. A tab is added and hidden,
  the tool is pushed, and \<open>lastTabName\<close> is set when it is still \<open>null\<close> or empty.
\<close>

definition addTool :: "'o IEditionTool \<Rightarrow> 'o EditorEditionTools \<Rightarrow> 'o EditorEditionTools" where
  "addTool tool st =
     st\<lparr> containers :=
           jqSetVisible (selector st) (divId tool) False
             ((containers st)
                (divId tool \<mapsto> (case containers st (divId tool) of None \<Rightarrow> True | Some v \<Rightarrow> v))),
         tabs := (tabs st)(tabName tool \<mapsto> False),
         tools := tools st @ [tool],
         lastTabName := (if falsy (lastTabName st) then Some (tabName tool) else lastTabName st) \<rparr>"

text \<open>The constructor: the initial state, then \<open>addTool\<close> for each tool in order.\<close>

definition construct ::
  "(string \<Rightarrow> string \<Rightarrow> bool) \<Rightarrow> string option \<Rightarrow> 'o IEditionTool list \<Rightarrow> 'o EditorEditionTools" where
  "construct sel rootDiv ts = fold addTool ts (init sel rootDiv)"

text \<open>\<open>changeTab\<close>: the \<open>forEach\<close> over the tools, then the resize event.\<close>

fun changeTab_forEach ::
  "string \<Rightarrow> 'o IEditionTool list \<Rightarrow> 'o EditorEditionTools \<Rightarrow> 'o EditorEditionTools" where
  "changeTab_forEach target [] st = st"
| "changeTab_forEach target (t # ts) st =
     (if tabName t = target
      then changeTab_forEach target ts
             (st\<lparr> containers := jqSetVisible (selector st) (divId t) True (containers st),
                  lastTabName := Some target \<rparr>)
      else changeTab_forEach target ts
             (st\<lparr> containers := jqSetVisible (selector st) (divId t) False (containers st) \<rparr>))"

definition changeTab :: "string \<Rightarrow> 'o EditorEditionTools \<Rightarrow> 'o EditorEditionTools" where
  "changeTab target st =
     (let st' = changeTab_forEach target (tools st) st
      in st'\<lparr> calls := calls st' @ [DispatchResize] \<rparr>)"

text \<open>
  \<open>setObject\<close>: the \<open>forEach\<close> over the tools carries the local \<open>firstTool\<close> along;
  \<open>changeTab\<close> is called afterwards when \<open>firstTool\<close> is set.
\<close>

fun setObject_forEach ::
  "'o option \<Rightarrow> 'o IEditionTool list \<Rightarrow> 'o EditorEditionTools \<Rightarrow> 'o IEditionTool option
     \<Rightarrow> 'o EditorEditionTools \<times> 'o IEditionTool option" where
  "setObject_forEach object [] st firstTool = (st, firstTool)"
| "setObject_forEach object (t # ts) st firstTool =
     (if isSupported t object
      then setObject_forEach object ts
             (st\<lparr> containers := jqSetVisible (selector st) (divId t) True (containers st),
                  tabs := setVisible (tabName t) True (tabs st),
                  calls := calls st @ [Update t object, OnFinishChange t (undoRedoCallback t)],
                  currentTools := currentTools st @ [t] \<rparr>)
             (if Some (tabName t) = lastTabName st then Some t
              else if firstTool = None then Some t
              else firstTool)
      else setObject_forEach object ts
             (st\<lparr> containers := jqSetVisible (selector st) (divId t) False (containers st),
                  tabs := setVisible (tabName t) False (tabs st) \<rparr>)
             firstTool)"

definition setObject :: "'o option \<Rightarrow> 'o EditorEditionTools \<Rightarrow> 'o EditorEditionTools" where
  "setObject object st =
     (case setObject_forEach object (tools st) (st\<lparr> currentTools := [] \<rparr>) None of
        (st', firstTool) \<Rightarrow>
          (case firstTool of
             None \<Rightarrow> st'
           | Some t \<Rightarrow> changeTab (tabName t) st')\<lparr> currentObject := object \<rparr>)"

definition refresh :: "'o EditorEditionTools \<Rightarrow> 'o EditorEditionTools" where
  "refresh st = setObject (currentObject st) st"

text \<open>
  \<open>resize\<close> and \<open>updateDisplay\<close> act on the widgets of the tools only and leave every
  field of the manager as it is; they have no definition here.
\<close>

text \<open>
  What registration through \<open>addTool\<close> establishes when the tools have pairwise different
  tab names and pairwise different container ids made of word characters: every tool
  has its own container, found under its id, and its own tab.
\<close>

definition registered :: "'o EditorEditionTools \<Rightarrow> bool" where
  "registered st \<longleftrightarrow>
     distinct (map divId (tools st)) \<and> distinct (map tabName (tools st)) \<and>
     list_all (\<lambda>t. quickId (divId t) \<and> containers st (divId t) \<noteq> None \<and>
                   tabs st (tabName t) \<noteq> None) (tools st)"

text \<open>\<open>lastTabName\<close> is \<open>null\<close> or the tab name of a tool of the manager.\<close>

definition lastTabKnown :: "'o EditorEditionTools \<Rightarrow> bool" where
  "lastTabKnown st \<longleftrightarrow>
     (case lastTabName st of None \<Rightarrow> True | Some n \<Rightarrow> n \<in> set (map tabName (tools st)))"

text \<open>
  A proof device: the visibility map after a pass over a list that sets the entries
  that \<open>hit t\<close> holds of to \<open>f t\<close>, for each \<open>t\<close> in turn.
\<close>

definition setWhere :: "(string \<Rightarrow> bool) \<Rightarrow> bool \<Rightarrow> (string \<rightharpoonup> bool) \<Rightarrow> (string \<rightharpoonup> bool)" where
  "setWhere P b m = (\<lambda>e. if P e then (case m e of None \<Rightarrow> None | Some _ \<Rightarrow> Some b) else m e)"

definition overwrite ::
  "('a \<Rightarrow> string \<Rightarrow> bool) \<Rightarrow> ('a \<Rightarrow> bool) \<Rightarrow> 'a list \<Rightarrow> (string \<rightharpoonup> bool) \<Rightarrow> (string \<rightharpoonup> bool)" where
  "overwrite hit f ts m = fold (\<lambda>t. setWhere (hit t) (f t)) ts m"

definition divHit :: "(string \<Rightarrow> string \<Rightarrow> bool) \<Rightarrow> 'o IEditionTool \<Rightarrow> string \<Rightarrow> bool" where
  "divHit sel t = jqMatches sel (divId t)"

definition tabHit :: "'o IEditionTool \<Rightarrow> string \<Rightarrow> bool" where
  "tabHit t = (\<lambda>e. e = tabName t)"


section \<open>The texture editor (GUITextureEditor)\<close>

subsection \<open>Strings\<close>

text \<open>
  \<open>toLowerCase\<close> on the letters \<open>A\<close> to \<open>Z\<close> (other characters are left as they are),
  \<open>indexOf\<close> with result \<open>-1\<close> when the pattern does not occur, and \<open>replace\<close> with a
  string pattern, which replaces the first occurrence only.
\<close>

definition toLowerChar :: "char \<Rightarrow> char" where
  "toLowerChar c =
     (if (65::nat) \<le> of_char c \<and> of_char c \<le> (90::nat) then char_of (of_char c + (32::nat)) else c)"

definition toLowerCase :: "string \<Rightarrow> string" where
  "toLowerCase s = map toLowerChar s"

definition startsWith :: "string \<Rightarrow> string \<Rightarrow> bool" where
  "startsWith s pat = (take (length pat) s = pat)"

fun indexOf_from :: "nat \<Rightarrow> string \<Rightarrow> string \<Rightarrow> int" where
  "indexOf_from i [] pat = (if pat = [] then int i else - 1)"
| "indexOf_from i (c # cs) pat =
     (if startsWith (c # cs) pat then int i else indexOf_from (Suc i) cs pat)"

definition indexOf :: "string \<Rightarrow> string \<Rightarrow> int" where
  "indexOf s pat = indexOf_from 0 s pat"

fun replace :: "string \<Rightarrow> string \<Rightarrow> string \<Rightarrow> string" where
  "replace [] pat rep = (if pat = [] then rep else [])"
| "replace (c # cs) pat rep =
     (if startsWith (c # cs) pat then rep @ drop (length pat) (c # cs)
      else c # replace cs pat rep)"

subsection \<open>Data\<close>

text \<open>
  A value stored in a property of the edited object: a reference to a texture, or
  something that is not a \<open>BaseTexture\<close>.
\<close>

datatype jsval = Undefined | Null | TextureRef nat | OtherValue nat

text \<open>
  The value of an \<open>onAfterRender\<close> property: a callback that other code installed, or
  the arrow function created by \<open>_configureRenderTarget\<close>, closed over \<open>width\<close>, \<open>height\<close>
  and its \<open>imgData\<close> (a reference into the store of image data objects).
\<close>

datatype callback = UserCallback nat | PreviewCallback nat nat nat

text \<open>
  The members of a texture of the engine that the editor reads or writes. Textures are
  objects: they live in a store and are held by reference, so that the render target of
  the scene and \<open>_currentRenderTarget\<close> are the same object. \<open>hasName\<close> says that the
  member \<open>name\<close> is a string, which is then \<open>name\<close>; otherwise the member is \<open>null\<close> or
  \<open>undefined\<close>. This matters where a method of the name is called, in the click
  handler; \<open>_fillTextureList\<close> only copies the name into a row, and a texture that the
  engine makes from a file has a string as its name.
\<close>

record BaseTexture =
  hasName :: bool
  name :: string
  url :: string
  buffer :: "string option"
  isCube :: bool
  isRenderTarget :: bool
  getSize :: "nat \<times> nat"
  onAfterRender :: "callback option"
  disposed :: bool

record SerializationObject =
  serializedName :: string
  base64String :: "string option"

record ITextureRow =
  rowName :: string
  recid :: int

datatype error = TypeError

text \<open>The calls into the engine, the canvas and the browser, in the order they are made.\<close>

datatype effect =
    CallbackInvoked callback nat
  | ReadPixels nat nat nat nat
  | PutImageData nat "8 word list"
  | TextureUpdate nat
  | SetTexture nat
  | TextureParse "SerializationObject option"
  | CreateFromBase64String string string
  | ReadFileAsDataURL string
  | InputClick

text \<open>
  What the editor reaches through \<open>_core\<close> and the engine: the store of textures, the
  texture list of the current scene, \<open>FilesInput.FilesTextures\<close>, the store of image data
  objects, and the calls made so far. \<open>filesTextures\<close> are the names under which
  \<open>FilesInput.FilesTextures\<close> has an entry of its own, each entry a file;
  \<open>inheritedMembers\<close> are the names of the members that it inherits from its prototypes,
  such as \<open>constructor\<close>, each member a function or an object.
\<close>

record EditorCore =
  heap :: "nat \<Rightarrow> BaseTexture"
  nextRef :: nat
  sceneTextures :: "nat list"
  filesTextures :: "string set"
  inheritedMembers :: "string set"
  imageDatas :: "nat \<Rightarrow> 8 word list"
  nextImage :: nat
  effects :: "effect list"

text \<open>
  The members of the class. \<open>object\<close> is the edited object as the function from property
  names to values (\<open>None\<close> when no object was given); \<open>pendingReads\<close> are the file names for
  which a read with the callback \<open>_onReadFileCallback(name)\<close> has been started.
\<close>

record GUITextureEditor = EditorCore +
  object :: "(string \<Rightarrow> jsval) option"
  propertyPath :: "string option"
  objectName :: "string option"
  targetObject :: jsval
  targetTexture :: "nat option"
  currentRenderTarget :: "nat option"
  currentPixels :: "8 word list option"
  currentOnAfterRender :: "callback option"
  dynamicTexture :: "nat option"
  texturesList :: "ITextureRow list"
  pendingReads :: "string list"


subsection \<open>The grid of textures\<close>

text \<open>
  Modelled from the spec: \<open>GUI.GUIGrid\<close> is not among the sources. The spec speaks of
  grid rows only; the grid is the list of its rows, \<open>addRow\<close> appends one row, \<open>clear\<close>
  removes all rows and \<open>getRowCount\<close> is the number of rows.
\<close>

definition addRow :: "ITextureRow \<Rightarrow> ITextureRow list \<Rightarrow> ITextureRow list" where
  "addRow row rows = rows @ [row]"

definition getRowCount :: "ITextureRow list \<Rightarrow> int" where
  "getRowCount rows = int (length rows)"

definition fillTextureList :: "GUITextureEditor \<Rightarrow> GUITextureEditor" where
  "fillTextureList ed =
     ed\<lparr> texturesList :=
           fold (\<lambda>i rows. addRow \<lparr> rowName = name (heap ed (sceneTextures ed ! i)), recid = int i \<rparr> rows)
             [0 ..< length (sceneTextures ed)] [] \<rparr>"

subsection \<open>Constructor and post-process\<close>

text \<open>
  The constructor: \<open>_targetObject\<close> is \<open>object[propertyPath]\<close> when both are given and
  the value is a texture, \<open>null\<close> when both are given and it is not, and stays
  \<open>undefined\<close> otherwise. \<open>_createUI\<close> then fills the texture list; the handlers it
  installs are the functions below.
\<close>

definition constructor ::
  "EditorCore \<Rightarrow> string option \<Rightarrow> (string \<Rightarrow> jsval) option \<Rightarrow> string option \<Rightarrow> GUITextureEditor" where
  "constructor core objName obj path =
     fillTextureList
       \<lparr> heap = heap core, nextRef = nextRef core, sceneTextures = sceneTextures core,
         filesTextures = filesTextures core, inheritedMembers = inheritedMembers core,
         imageDatas = imageDatas core,
         nextImage = nextImage core, effects = effects core,
         object = obj, propertyPath = path, objectName = objName,
         targetObject =
           (case obj of
              None \<Rightarrow> Undefined
            | Some f \<Rightarrow>
                (case path of
                   None \<Rightarrow> Undefined
                 | Some p \<Rightarrow>
                     if p = [] then Undefined
                     else (case f p of TextureRef r \<Rightarrow> TextureRef r | _ \<Rightarrow> Null))),
         targetTexture = None, currentRenderTarget = None, currentPixels = None,
         currentOnAfterRender = None, dynamicTexture = None, texturesList = [],
         pendingReads = [] \<rparr>"

text \<open>\<open>postProcess.onApply\<close>: the texture is handed to the effect only when it is set.\<close>

definition onApply :: "GUITextureEditor \<Rightarrow> GUITextureEditor" where
  "onApply ed =
     (case targetTexture ed of
        None \<Rightarrow> ed
      | Some t \<Rightarrow> ed\<lparr> effects := effects ed @ [SetTexture t] \<rparr>)"

subsection \<open>Render target preview\<close>

definition dispose :: "nat \<Rightarrow> GUITextureEditor \<Rightarrow> GUITextureEditor" where
  "dispose r ed = ed\<lparr> heap := (heap ed)(r := (heap ed r)\<lparr> disposed := True \<rparr>) \<rparr>"

text \<open>\<open>new DynamicTexture("RenderTargetTexture", { width, height }, scene, false)\<close>.\<close>

definition newDynamicTexture :: "nat \<Rightarrow> nat \<Rightarrow> BaseTexture" where
  "newDynamicTexture width height =
     \<lparr> hasName = True, name = ''RenderTargetTexture'', url = [], buffer = None, isCube = False,
       isRenderTarget = False, getSize = (width, height), onAfterRender = None,
       disposed = False \<rparr>"

text \<open>
  \<open>_configureRenderTarget\<close>. A property of \<open>_currentRenderTarget\<close> is read first, which
  is a \<open>TypeError\<close> when it is \<open>null\<close>. \<open>new ImageData(width, height)\<close> is a zeroed
  buffer of four bytes per pixel.
\<close>

definition configureRenderTarget :: "GUITextureEditor \<Rightarrow> error + GUITextureEditor" where
  "configureRenderTarget ed =
     (case currentRenderTarget ed of
        None \<Rightarrow> Inl TypeError
      | Some rt \<Rightarrow>
          (case getSize (heap ed rt) of
             (width, height) \<Rightarrow>
               let img = nextImage ed;
                   ed1 = ed\<lparr> imageDatas := (imageDatas ed)(img := replicate (4 * width * height) 0),
                             nextImage := Suc img \<rparr>;
                   ed2 = ed1\<lparr> currentOnAfterRender := onAfterRender (heap ed1 rt) \<rparr>;
                   d = nextRef ed2;
                   ed3 = ed2\<lparr> heap := (heap ed2)(d := newDynamicTexture width height),
                              nextRef := Suc d, dynamicTexture := Some d \<rparr>;
                   ed4 = ed3\<lparr> heap := (heap ed3)
                                (rt := (heap ed3 rt)
                                   \<lparr> onAfterRender := Some (PreviewCallback width height img) \<rparr>) \<rparr>
               in Inr (ed4\<lparr> targetTexture := dynamicTexture ed4 \<rparr>)))"

text \<open>
  \<open>_restorRenderTarget\<close>: \<open>_currentRenderTarget\<close> and \<open>_dynamicTexture\<close> are both
  dereferenced without a check.
\<close>

definition restorRenderTarget :: "GUITextureEditor \<Rightarrow> error + GUITextureEditor" where
  "restorRenderTarget ed =
     (case currentRenderTarget ed of
        None \<Rightarrow> Inl TypeError
      | Some rt \<Rightarrow>
          let ed1 = ed\<lparr> heap := (heap ed)
                        (rt := (heap ed rt)\<lparr> onAfterRender := currentOnAfterRender ed \<rparr>) \<rparr>
          in (case dynamicTexture ed1 of
                None \<Rightarrow> Inl TypeError
              | Some d \<Rightarrow>
                  Inr ((dispose d ed1)\<lparr> dynamicTexture := None, currentPixels := None,
                                        currentRenderTarget := None \<rparr>)))"

text \<open>
  The loop \<open>for (i = 0; i < pixels.length; i++) imgData.data[i] = pixels[i]\<close>. The
  target is a typed array of fixed length: a write beyond its end does nothing.
\<close>

function copyPixels :: "nat \<Rightarrow> 8 word list \<Rightarrow> 8 word list \<Rightarrow> 8 word list" where
  "copyPixels i pixels data =
     (if i < length pixels
      then copyPixels (Suc i) pixels (if i < length data then data[i := pixels ! i] else data)
      else data)"
  by pat_completeness auto
termination
  by (relation "measure (\<lambda>(i, pixels, data). length pixels - i)") auto

declare copyPixels.simps [simp del]

text \<open>
  The arrow function that \<open>_configureRenderTarget\<close> installs as \<open>onAfterRender\<close>, called
  with \<open>faceIndex\<close>. \<open>pixels\<close> is what \<open>engine.readPixels(0, 0, width, height)\<close> returns
  in this call. The original callback is code of the caller: its invocation is recorded.
\<close>

definition previewAfterRender ::
  "nat \<Rightarrow> nat \<Rightarrow> nat \<Rightarrow> nat \<Rightarrow> 8 word list \<Rightarrow> GUITextureEditor \<Rightarrow> error + GUITextureEditor" where
  "previewAfterRender width height img faceIndex pixels ed =
     (let ed1 = (case currentOnAfterRender ed of
                   None \<Rightarrow> ed
                 | Some cb \<Rightarrow> ed\<lparr> effects := effects ed @ [CallbackInvoked cb faceIndex] \<rparr>);
          ed2 = ed1\<lparr> effects := effects ed1 @ [ReadPixels 0 0 width height],
                    currentPixels := Some pixels \<rparr>;
          ed3 = ed2\<lparr> imageDatas := (imageDatas ed2)(img := copyPixels 0 pixels (imageDatas ed2 img)) \<rparr>
      in (case dynamicTexture ed3 of
            None \<Rightarrow> Inl TypeError
          | Some d \<Rightarrow>
              Inr (ed3\<lparr> effects := effects ed3 @ [PutImageData d (imageDatas ed3 img), TextureUpdate d] \<rparr>)))"

text \<open>The engine has rendered the texture \<open>rt\<close> and calls its \<open>onAfterRender\<close>, if any.\<close>

definition afterRender :: "nat \<Rightarrow> nat \<Rightarrow> 8 word list \<Rightarrow> GUITextureEditor \<Rightarrow> error + GUITextureEditor" where
  "afterRender rt faceIndex pixels ed =
     (case onAfterRender (heap ed rt) of
        None \<Rightarrow> Inr ed
      | Some (UserCallback k) \<Rightarrow> Inr (ed\<lparr> effects := effects ed @ [CallbackInvoked (UserCallback k) faceIndex] \<rparr>)
      | Some (PreviewCallback width height img) \<Rightarrow> previewAfterRender width height img faceIndex pixels ed)"


subsection \<open>Click on the texture list\<close>

text \<open>
  \<open>FilesInput.FilesTextures[name]\<close> is truthy: the object has an entry of its own under
  the name, or it inherits a member of that name.
\<close>

definition filesTexturesMember :: "GUITextureEditor \<Rightarrow> string \<Rightarrow> bool" where
  "filesTexturesMember ed n \<longleftrightarrow> n \<in> filesTextures ed \<or> n \<in> inheritedMembers ed"

definition truthy :: "string option \<Rightarrow> bool" where
  "truthy s = (s \<noteq> None \<and> s \<noteq> Some [])"

text \<open>\<open>if (this._targetTexture) this._targetTexture.dispose()\<close>.\<close>

definition disposeTargetTexture :: "GUITextureEditor \<Rightarrow> GUITextureEditor" where
  "disposeTargetTexture ed = (case targetTexture ed of None \<Rightarrow> ed | Some t \<Rightarrow> dispose t ed)"

text \<open>\<open>if (this.object) this.object[this.propertyPath] = selectedTexture\<close>.\<close>

definition assignSelected :: "nat \<Rightarrow> GUITextureEditor \<Rightarrow> GUITextureEditor" where
  "assignSelected sel ed =
     (case object ed of
        None \<Rightarrow> ed
      | Some f \<Rightarrow>
          ed\<lparr> object :=
                Some (f((case propertyPath ed of None \<Rightarrow> ''undefined'' | Some p \<Rightarrow> p)
                          := TextureRef sel)) \<rparr>)"

text \<open>
  The end of the handler, from the comment "If render target, configure canvas" on.
  \<open>serializationObject\<close> is handed to \<open>Texture.Parse\<close> as it is, and \<open>parsed\<close> is what
  \<open>Texture.Parse\<close> returns in this call: a new texture, or \<open>null\<close>.
\<close>

definition showSelected ::
  "BaseTexture option \<Rightarrow> SerializationObject option \<Rightarrow> nat \<Rightarrow> GUITextureEditor
     \<Rightarrow> error + GUITextureEditor" where
  "showSelected parsed serializationObject sel ed =
     (if isRenderTarget (heap ed sel)
      then (case configureRenderTarget (ed\<lparr> currentRenderTarget := Some sel \<rparr>) of
              Inl e \<Rightarrow> Inl e
            | Inr ed' \<Rightarrow> Inr (assignSelected sel ed'))
      else
        let ed1 = ed\<lparr> effects := effects ed @ [TextureParse serializationObject] \<rparr>;
            ed2 = (case parsed of
                     None \<Rightarrow> ed1\<lparr> targetTexture := None \<rparr>
                   | Some tex \<Rightarrow>
                       ed1\<lparr> heap := (heap ed1)(nextRef ed1 := tex), nextRef := Suc (nextRef ed1),
                            targetTexture := Some (nextRef ed1) \<rparr>)
        in Inr (assignSelected sel ed2))"

text \<open>
  The handler once \<open>selectedTexture\<close> is known to be the texture \<open>sel\<close>. Calling
  \<open>toLowerCase\<close> on a name that is \<open>null\<close> or \<open>undefined\<close> is a \<open>TypeError\<close>.
  \<open>serialized\<close> is what \<open>selectedTexture.serialize()\<close> returns in this call, an object or
  \<open>null\<close>; writing \<open>base64String\<close> or \<open>name\<close> to \<open>null\<close> is a \<open>TypeError\<close>.
\<close>

definition onClick_selected ::
  "SerializationObject option \<Rightarrow> BaseTexture option \<Rightarrow> nat \<Rightarrow> GUITextureEditor
     \<Rightarrow> error + GUITextureEditor" where
  "onClick_selected serialized parsed sel ed =
     (if \<not> hasName (heap ed sel) then Inl TypeError
      else if indexOf (toLowerCase (name (heap ed sel))) ''.hdr'' \<noteq> - 1 then Inr ed
      else
        let serializationObject = serialized;
            ed1 = disposeTargetTexture ed
        in if truthy (buffer (heap ed1 sel))
           then (case serializationObject of
                   None \<Rightarrow> Inl TypeError
                 | Some so \<Rightarrow>
                     showSelected parsed
                       (Some (so\<lparr> base64String := buffer (heap ed1 sel) \<rparr>)) sel ed1)
           else if filesTexturesMember ed1 (name (heap ed1 sel))
           then (case serializationObject of
                   None \<Rightarrow> Inl TypeError
                 | Some so \<Rightarrow>
                     showSelected parsed
                       (Some (so\<lparr> serializedName := url (heap ed1 sel) \<rparr>)) sel ed1)
           else if isCube (heap ed1 sel) then Inr ed1
           else showSelected parsed serializationObject sel ed1)"

text \<open>
  \<open>_texturesList.onClick\<close>. \<open>textures[selected[0]]\<close> is \<open>undefined\<close> when the index is
  not an index of the list, and reading its \<open>name\<close> is then a \<open>TypeError\<close>.
\<close>

definition onClick ::
  "SerializationObject option \<Rightarrow> BaseTexture option \<Rightarrow> int list \<Rightarrow> GUITextureEditor
     \<Rightarrow> error + GUITextureEditor" where
  "onClick serialized parsed selected ed =
     (case selected of
        [] \<Rightarrow> Inr ed
      | s # _ \<Rightarrow>
          (case (case currentRenderTarget ed of
                   None \<Rightarrow> Inr ed
                 | Some _ \<Rightarrow> restorRenderTarget ed) of
             Inl e \<Rightarrow> Inl e
           | Inr ed1 \<Rightarrow>
               if 0 \<le> s \<and> s < int (length (sceneTextures ed1))
               then onClick_selected serialized parsed (sceneTextures ed1 ! nat s) ed1
               else Inl TypeError))"

subsection \<open>Adding textures from files\<close>

text \<open>\<open>_texturesList.onAdd\<close> installs the \<open>onchange\<close> handler and clicks the file input.\<close>

definition onAdd :: "GUITextureEditor \<Rightarrow> GUITextureEditor" where
  "onAdd ed = ed\<lparr> effects := effects ed @ [InputClick] \<rparr>"

text \<open>
  The \<open>onchange\<close> handler, given the names of the chosen files: one read is started for
  each file, with the callback made from the file's name.
\<close>

fun onchange :: "string list \<Rightarrow> GUITextureEditor \<Rightarrow> GUITextureEditor" where
  "onchange [] ed = ed"
| "onchange (fileName # files) ed =
     onchange files
       (ed\<lparr> effects := effects ed @ [ReadFileAsDataURL fileName],
            pendingReads := pendingReads ed @ [fileName] \<rparr>)"

text \<open>
  The function returned by \<open>_onReadFileCallback(name)\<close>, called with the data of the
  file. \<open>created\<close> is the texture that \<open>Texture.CreateFromBase64String\<close> returns in this
  call, with the name that the engine made for it, a string; the engine puts a texture
  it creates into the texture list of its scene. The final call to \<open>isObjectSupported\<close>
  changes nothing here.
\<close>

definition onReadFileCallback ::
  "string \<Rightarrow> string \<Rightarrow> BaseTexture \<Rightarrow> GUITextureEditor \<Rightarrow> GUITextureEditor" where
  "onReadFileCallback fileName data created ed =
     (let texture = nextRef ed;
          ed1 = ed\<lparr> effects := effects ed @ [CreateFromBase64String data fileName],
                   heap := (heap ed)(texture := created), nextRef := Suc texture,
                   sceneTextures := sceneTextures ed @ [texture] \<rparr>;
          ed2 = ed1\<lparr> heap := (heap ed1)
                        (texture := (heap ed1 texture)
                           \<lparr> name := replace (name (heap ed1 texture)) ''data:'' [] \<rparr>) \<rparr>
      in ed2\<lparr> texturesList :=
                addRow \<lparr> rowName = fileName, recid = getRowCount (texturesList ed2) - 1 \<rparr>
                  (texturesList ed2) \<rparr>)"

text \<open>The reads of the files \<open>fs\<close> complete one after the other.\<close>

fun readsCompleted :: "(string \<times> string \<times> BaseTexture) list \<Rightarrow> GUITextureEditor \<Rightarrow> GUITextureEditor" where
  "readsCompleted [] ed = ed"
| "readsCompleted ((fileName, data, created) # fs) ed =
     readsCompleted fs (onReadFileCallback fileName data created ed)"

text \<open>The engine renders the texture \<open>rt\<close> several times, one render after the other.\<close>

fun renders :: "nat \<Rightarrow> (nat \<times> 8 word list) list \<Rightarrow> GUITextureEditor \<Rightarrow> error + GUITextureEditor" where
  "renders rt [] ed = Inr ed"
| "renders rt ((faceIndex, pixels) # rs) ed =
     (case afterRender rt faceIndex pixels ed of
        Inl e \<Rightarrow> Inl e
      | Inr ed' \<Rightarrow> renders rt rs ed')"

text \<open>
  While a render target is previewed there is a dynamic texture: what
  \<open>_restorRenderTarget\<close> relies on.
\<close>

definition previewing :: "GUITextureEditor \<Rightarrow> bool" where
  "previewing ed \<longleftrightarrow> (currentRenderTarget ed \<noteq> None \<longrightarrow> dynamicTexture ed \<noteq> None)"


text \<open>
  The render target \<open>rt\<close> is being previewed: it is the current render target, its
  \<open>onAfterRender\<close> is the arrow function made for \<open>width\<close>, \<open>height\<close> and the image data
  \<open>img\<close>, the dynamic texture is \<open>d\<close>, and \<open>original\<close> is the callback that was saved.
\<close>

definition previewed ::
  "nat \<Rightarrow> nat \<Rightarrow> nat \<Rightarrow> nat \<Rightarrow> nat \<Rightarrow> callback option \<Rightarrow> GUITextureEditor \<Rightarrow> bool" where
  "previewed rt width height img d original ed \<longleftrightarrow>
     currentRenderTarget ed = Some rt \<and>
     onAfterRender (heap ed rt) = Some (PreviewCallback width height img) \<and>
     dynamicTexture ed = Some d \<and>
     currentOnAfterRender ed = original \<and>
     length (imageDatas ed img) = 4 * width * height"

text \<open>\<open>object[p]\<close> of the edited object (\<open>undefined\<close> when there is no object).\<close>

definition propertyOf :: "GUITextureEditor \<Rightarrow> string \<Rightarrow> jsval" where
  "propertyOf ed p = (case object ed of None \<Rightarrow> Undefined | Some f \<Rightarrow> f p)"

section \<open>Example inputs\<close>

definition sceneTool :: "nat IEditionTool" where
  "sceneTool = \<lparr> divId = ''SCENE-TOOL'', tabName = ''Scene'', isSupported = (\<lambda>ob. ob = Some 0) \<rparr>"

definition nodeTool :: "nat IEditionTool" where
  "nodeTool = \<lparr> divId = ''NODE-TOOL'', tabName = ''Node'', isSupported = (\<lambda>ob. ob = Some 1 \<or> ob = Some 2) \<rparr>"

definition lightTool :: "nat IEditionTool" where
  "lightTool = \<lparr> divId = ''LIGHT-TOOL'', tabName = ''Light'', isSupported = (\<lambda>ob. ob = Some 2) \<rparr>"

definition exampleManager :: "nat EditorEditionTools" where
  "exampleManager = construct (\<lambda>i e. False) None [sceneTool, nodeTool, lightTool]"

text \<open>The members that every object inherits.\<close>

definition objectPrototypeMembers :: "string list" where
  "objectPrototypeMembers =
     [''constructor'', ''hasOwnProperty'', ''isPrototypeOf'', ''propertyIsEnumerable'',
      ''toLocaleString'', ''toString'', ''valueOf'', ''__defineGetter__'', ''__defineSetter__'',
      ''__lookupGetter__'', ''__lookupSetter__'', ''__proto__'']"

definition woodTexture :: BaseTexture where
  "woodTexture =
     \<lparr> hasName = True, name = ''wood.png'', url = ''textures/wood.png'', buffer = None, isCube = False,
       isRenderTarget = False, getSize = (2, 2), onAfterRender = None, disposed = False \<rparr>"

definition skyTexture :: BaseTexture where
  "skyTexture =
     \<lparr> hasName = True, name = ''Sky.HDR'', url = ''textures/Sky.HDR'', buffer = None, isCube = True,
       isRenderTarget = False, getSize = (2, 2), onAfterRender = None, disposed = False \<rparr>"

definition mirrorTexture :: BaseTexture where
  "mirrorTexture =
     \<lparr> hasName = True, name = ''mirror'', url = [], buffer = None, isCube = False,
       isRenderTarget = True, getSize = (1, 1), onAfterRender = Some (UserCallback 7),
       disposed = False \<rparr>"

definition exampleCore :: EditorCore where
  "exampleCore =
     \<lparr> heap = (\<lambda>r. if r = 0 then woodTexture else if r = 1 then skyTexture else mirrorTexture),
       nextRef = 3, sceneTextures = [0, 1, 2], filesTextures = {},
       inheritedMembers = set objectPrototypeMembers,
       imageDatas = (\<lambda>i. []), nextImage = 0, effects = [] \<rparr>"

definition exampleMaterial :: "string \<Rightarrow> jsval" where
  "exampleMaterial p = (if p = ''diffuseTexture'' then OtherValue 0 else Undefined)"

definition exampleEditor :: GUITextureEditor where
  "exampleEditor = constructor exampleCore None (Some exampleMaterial) (Some ''diffuseTexture'')"

definition mirrorPreview :: GUITextureEditor where
  "mirrorPreview = exampleEditor\<lparr> currentRenderTarget := Some 2 \<rparr>"


text \<open>
  The objects of the example tools at some moment.
\<close>

definition exampleObjects :: "nat IEditionTool \<Rightarrow> nat option" where
  "exampleObjects t =
     (if divId t = ''LIGHT-TOOL'' then Some 2 else if divId t = ''NODE-TOOL'' then Some 1 else None)"

text \<open>
  Two tools with the same tab name, two tools with the same container, and a tool whose
  container id is not made of word characters.
\<close>

definition meshTool :: "nat IEditionTool" where
  "meshTool = \<lparr> divId = ''MESH-TOOL'', tabName = ''Object'', isSupported = (\<lambda>ob. ob = Some 1) \<rparr>"

definition cameraTool :: "nat IEditionTool" where
  "cameraTool = \<lparr> divId = ''CAMERA-TOOL'', tabName = ''Object'', isSupported = (\<lambda>ob. ob = Some 3) \<rparr>"

definition sharedTabManager :: "nat EditorEditionTools" where
  "sharedTabManager = construct (\<lambda>i e. False) None [meshTool, cameraTool]"

definition groundTool :: "nat IEditionTool" where
  "groundTool = \<lparr> divId = ''MESH-TOOL'', tabName = ''Ground'', isSupported = (\<lambda>ob. ob = Some 3) \<rparr>"

definition sharedContainerManager :: "nat EditorEditionTools" where
  "sharedContainerManager = construct (\<lambda>i e. False) None [groundTool, meshTool]"

definition dottedTool :: "nat IEditionTool" where
  "dottedTool = \<lparr> divId = ''NODE.TOOL'', tabName = ''Node'', isSupported = (\<lambda>ob. ob = Some 4) \<rparr>"

definition dottedManager :: "nat EditorEditionTools" where
  "dottedManager = construct (\<lambda>i e. False) None [dottedTool]"

text \<open>What \<open>serialize\<close> returns for the example textures.\<close>

definition woodSerialized :: SerializationObject where
  "woodSerialized = \<lparr> serializedName = ''wood.png'', base64String = None \<rparr>"

definition skySerialized :: SerializationObject where
  "skySerialized = \<lparr> serializedName = ''Sky.HDR'', base64String = None \<rparr>"

text \<open>
  A scene with two cube textures that have neither a \<open>_buffer\<close> nor an entry of their
  own in \<open>FilesInput.FilesTextures\<close>; the name of the second one is the name of a member
  that every object inherits.
\<close>

definition skyboxTexture :: BaseTexture where
  "skyboxTexture =
     \<lparr> hasName = True, name = ''skybox'', url = ''textures/skybox'', buffer = None, isCube = True,
       isRenderTarget = False, getSize = (2, 2), onAfterRender = None, disposed = False \<rparr>"

definition constructorTexture :: BaseTexture where
  "constructorTexture =
     \<lparr> hasName = True, name = ''constructor'', url = ''textures/constructor'', buffer = None,
       isCube = True, isRenderTarget = False, getSize = (2, 2), onAfterRender = None,
       disposed = False \<rparr>"

definition skyboxSerialized :: SerializationObject where
  "skyboxSerialized = \<lparr> serializedName = ''skybox'', base64String = None \<rparr>"

definition constructorSerialized :: SerializationObject where
  "constructorSerialized = \<lparr> serializedName = ''constructor'', base64String = None \<rparr>"

definition cubeCore :: EditorCore where
  "cubeCore =
     \<lparr> heap = (\<lambda>r. if r = 0 then skyboxTexture else constructorTexture),
       nextRef = 2, sceneTextures = [0, 1], filesTextures = {},
       inheritedMembers = set objectPrototypeMembers,
       imageDatas = (\<lambda>i. []), nextImage = 0, effects = [] \<rparr>"

definition cubeEditor :: GUITextureEditor where
  "cubeEditor = constructor cubeCore None (Some exampleMaterial) (Some ''diffuseTexture'')"

definition brickTexture :: BaseTexture where
  "brickTexture =
     \<lparr> hasName = True, name = ''data:brick.png'', url = ''data:brick.png'', buffer = Some ''iVBORw0KGgo='',
       isCube = False, isRenderTarget = False, getSize = (2, 2), onAfterRender = None,
       disposed = False \<rparr>"

section \<open>Lists and visibility maps\<close>

lemma overwrite_Nil: "overwrite hit f [] m = m"
  by (simp add: overwrite_def)

lemma overwrite_Cons: "overwrite hit f (t # ts) m = overwrite hit f ts (setWhere (hit t) (f t) m)"
  by (simp add: overwrite_def)

lemma setVisible_setWhere: "setVisible i b m = setWhere (\<lambda>e. e = i) b m"
  by (rule ext) (simp add: setVisible_def setWhere_def split: option.splits)

lemma jqSetVisible_setWhere: "jqSetVisible sel i b m = setWhere (jqMatches sel i) b m"
  by (simp add: jqSetVisible_def setWhere_def)

lemma setWhere_dom: "dom (setWhere P b m) = dom m"
  by (auto simp: setWhere_def dom_def split: option.splits if_splits)

lemma find_app: "find P (xs @ ys) = (case find P xs of None \<Rightarrow> find P ys | Some x \<Rightarrow> Some x)"
  by (induction xs) simp_all

lemma overwrite_apply:
  "overwrite hit f ts m e =
     (case m e of None \<Rightarrow> None
      | Some b \<Rightarrow> (case find (\<lambda>t. hit t e) (rev ts) of None \<Rightarrow> Some b | Some t \<Rightarrow> Some (f t)))"
proof (induction ts arbitrary: m)
  case Nil
  then show ?case by (simp add: overwrite_Nil split: option.splits)
next
  case (Cons t ts)
  show ?case
    by (simp add: overwrite_Cons Cons.IH find_app setWhere_def split: option.splits)
qed

lemma overwrite_twice: "overwrite hit f ts (overwrite hit g ts m) = overwrite hit f ts m"
  by (rule ext) (simp add: overwrite_apply split: option.splits)

lemma find_SomeD: "find P xs = Some x \<Longrightarrow> x \<in> set xs \<and> P x"
  by (induction xs) (auto split: if_splits)

lemma find_rev_distinct:
  assumes "distinct (map key ts)" and "t \<in> set ts"
  shows "find (\<lambda>t'. key t' = key t) (rev ts) = Some t"
proof (cases "find (\<lambda>t'. key t' = key t) (rev ts)")
  case None
  then have "\<forall>x\<in>set (rev ts). key x \<noteq> key t" by (simp add: find_None_iff)
  with assms(2) show ?thesis by auto
next
  case (Some x)
  then have "x \<in> set ts" and "key x = key t" by (auto dest: find_SomeD)
  moreover from assms(1) have "inj_on key (set ts)" by (simp add: distinct_map)
  ultimately have "x = t" using assms(2) by (auto dest: inj_onD)
  with Some show ?thesis by simp
qed

lemma find_cong_set: "(\<And>x. x \<in> set xs \<Longrightarrow> P x = Q x) \<Longrightarrow> find P xs = find Q xs"
  by (induction xs) simp_all

lemma overwrite_own:
  assumes "distinct (map key ts)" and "t \<in> set ts" and "m (key t) \<noteq> None"
    and "\<And>t'. t' \<in> set ts \<Longrightarrow> hit t' (key t) \<longleftrightarrow> key t' = key t"
  shows "overwrite hit f ts m (key t) = Some (f t)"
proof -
  have "find (\<lambda>t'. hit t' (key t)) (rev ts) = find (\<lambda>t'. key t' = key t) (rev ts)"
    by (rule find_cong_set) (simp add: assms(4))
  with assms(1-3) show ?thesis
    by (auto simp: overwrite_apply find_rev_distinct)
qed

lemma overwrite_dom: "dom (overwrite hit f ts m) = dom m"
  by (auto simp: overwrite_apply dom_def split: option.splits)

lemma filter_key_le1:
  "distinct (map key ts) \<Longrightarrow> length (filter (\<lambda>t. key t = k) ts) \<le> Suc 0"
proof (induction ts)
  case Nil then show ?case by simp
next
  case (Cons a ts)
  show ?case
  proof (cases "key a = k")
    case True
    from Cons.prems have "key a \<notin> key ` set ts" by simp
    then have "\<forall>x\<in>set ts. key x \<noteq> key a" by (metis imageI)
    with True have "\<forall>x\<in>set ts. key x \<noteq> k" by simp
    then have "filter (\<lambda>t. key t = k) ts = []" by (simp add: filter_empty_conv)
    with True show ?thesis by simp
  next
    case False
    with Cons show ?thesis by simp
  qed
qed

section \<open>The loops of the edition tools manager\<close>

lemma loop_fields:
  "lastTabName (fst (setObject_forEach ob ts st f)) = lastTabName st"
  "tools (fst (setObject_forEach ob ts st f)) = tools st"
  "root (fst (setObject_forEach ob ts st f)) = root st"
  "currentObject (fst (setObject_forEach ob ts st f)) = currentObject st"
  "selector (fst (setObject_forEach ob ts st f)) = selector st"
  by (induction ts arbitrary: st f; simp)+

lemma loop_currentTools:
  "currentTools (fst (setObject_forEach ob ts st f)) = currentTools st @ filter (\<lambda>t. isSupported t ob) ts"
  by (induction ts arbitrary: st f) simp_all

lemma loop_containers:
  "containers (fst (setObject_forEach ob ts st f)) = overwrite (divHit (selector st)) (\<lambda>t. isSupported t ob) ts (containers st)"
  by (induction ts arbitrary: st f)
     (simp_all add: overwrite_Nil overwrite_Cons jqSetVisible_setWhere setVisible_setWhere
        divHit_def tabHit_def)

lemma loop_tabs:
  "tabs (fst (setObject_forEach ob ts st f)) = overwrite tabHit (\<lambda>t. isSupported t ob) ts (tabs st)"
  by (induction ts arbitrary: st f)
     (simp_all add: overwrite_Nil overwrite_Cons jqSetVisible_setWhere setVisible_setWhere
        divHit_def tabHit_def)

lemma loop_calls:
  "calls (fst (setObject_forEach ob ts st f)) =
     calls st @ concat (map (\<lambda>t. [Update t ob, OnFinishChange t (undoRedoCallback t)]) (filter (\<lambda>t. isSupported t ob) ts))"
  by (induction ts arbitrary: st f) simp_all

lemma loop_firstTool:
  "snd (setObject_forEach ob ts st f) =
     (case find (\<lambda>t. isSupported t ob \<and> Some (tabName t) = lastTabName st) (rev ts) of
        Some t \<Rightarrow> Some t
      | None \<Rightarrow> (case f of Some x \<Rightarrow> Some x | None \<Rightarrow> find (\<lambda>t. isSupported t ob) ts))"
proof (induction ts arbitrary: st f)
  case Nil
  then show ?case by (simp split: option.splits)
next
  case (Cons t ts)
  show ?case
    by (auto simp: Cons.IH find_app split: option.splits)
qed

lemma ct_fields:
  "tools (changeTab_forEach tg ts st) = tools st"
  "tabs (changeTab_forEach tg ts st) = tabs st"
  "currentTools (changeTab_forEach tg ts st) = currentTools st"
  "currentObject (changeTab_forEach tg ts st) = currentObject st"
  "calls (changeTab_forEach tg ts st) = calls st"
  "root (changeTab_forEach tg ts st) = root st"
  "selector (changeTab_forEach tg ts st) = selector st"
  by (induction ts arbitrary: st; simp)+

lemma ct_containers:
  "containers (changeTab_forEach tg ts st) = overwrite (divHit (selector st)) (\<lambda>t. tabName t = tg) ts (containers st)"
  by (induction ts arbitrary: st)
     (simp_all add: overwrite_Nil overwrite_Cons jqSetVisible_setWhere divHit_def)

lemma ct_last:
  "lastTabName (changeTab_forEach tg ts st) = (if \<exists>t\<in>set ts. tabName t = tg then Some tg else lastTabName st)"
  by (induction ts arbitrary: st) auto

lemma firstTool_supported:
  assumes "snd (setObject_forEach ob ts st None) = Some f"
  shows "f \<in> set ts \<and> isSupported f ob"
  using assms by (auto simp: loop_firstTool split: option.splits dest!: find_SomeD)

lemma firstTool_None:
  "snd (setObject_forEach ob ts st None) = None \<longleftrightarrow> (\<forall>t\<in>set ts. \<not> isSupported t ob)"
  by (auto simp: loop_firstTool find_None_iff split: option.splits dest!: find_SomeD)

lemma firstTool_tabName:
  "map_option tabName (snd (setObject_forEach ob ts st None)) =
     (if \<exists>t\<in>set ts. isSupported t ob \<and> Some (tabName t) = lastTabName st
      then lastTabName st
      else map_option tabName (find (\<lambda>t. isSupported t ob) ts))"
  by (auto simp: loop_firstTool find_None_iff split: option.splits dest!: find_SomeD)

lemma changeTab_fields:
  "tools (changeTab tg st) = tools st"
  "tabs (changeTab tg st) = tabs st"
  "currentTools (changeTab tg st) = currentTools st"
  "currentObject (changeTab tg st) = currentObject st"
  "calls (changeTab tg st) = calls st @ [DispatchResize]"
  "root (changeTab tg st) = root st"
  "selector (changeTab tg st) = selector st"
  "containers (changeTab tg st) = overwrite (divHit (selector st)) (\<lambda>t. tabName t = tg) (tools st) (containers st)"
  "lastTabName (changeTab tg st) = (if \<exists>t\<in>set (tools st). tabName t = tg then Some tg else lastTabName st)"
  by (simp_all add: changeTab_def Let_def ct_fields ct_containers ct_last)

lemma setObject_unfold:
  "setObject ob st =
     (case snd (setObject_forEach ob (tools st) (st\<lparr>currentTools := []\<rparr>) None) of
        None \<Rightarrow> fst (setObject_forEach ob (tools st) (st\<lparr>currentTools := []\<rparr>) None)
      | Some t \<Rightarrow> changeTab (tabName t) (fst (setObject_forEach ob (tools st) (st\<lparr>currentTools := []\<rparr>) None)))
     \<lparr>currentObject := ob\<rparr>"
  by (simp add: setObject_def case_prod_beta)

lemma firstTool_tabName0:
  "map_option tabName (snd (setObject_forEach ob (tools st) (st\<lparr>currentTools := []\<rparr>) None)) =
     (if \<exists>t\<in>set (tools st). isSupported t ob \<and> Some (tabName t) = lastTabName st
      then lastTabName st
      else map_option tabName (find (\<lambda>t. isSupported t ob) (tools st)))"
  using firstTool_tabName [of ob "tools st" "st\<lparr>currentTools := []\<rparr>"] by auto

lemma setObject_fields:
  "tools (setObject ob st) = tools st"
  "currentTools (setObject ob st) = filter (\<lambda>t. isSupported t ob) (tools st)"
  "currentObject (setObject ob st) = ob"
  "tabs (setObject ob st) = overwrite tabHit (\<lambda>t. isSupported t ob) (tools st) (tabs st)"
  "root (setObject ob st) = root st"
  "selector (setObject ob st) = selector st"
  by (simp_all add: setObject_unfold loop_fields loop_currentTools loop_tabs changeTab_fields
      split: option.splits)

lemma setObject_lastTabName:
  "lastTabName (setObject ob st) =
     (if \<exists>t\<in>set (tools st). isSupported t ob \<and> Some (tabName t) = lastTabName st
      then lastTabName st
      else case find (\<lambda>t. isSupported t ob) (tools st) of
             None \<Rightarrow> lastTabName st | Some t \<Rightarrow> Some (tabName t))"
proof (cases "snd (setObject_forEach ob (tools st) (st\<lparr>currentTools := []\<rparr>) None)")
  case None
  then have "\<forall>t\<in>set (tools st). \<not> isSupported t ob" by (simp add: firstTool_None)
  then have "find (\<lambda>t. isSupported t ob) (tools st) = None" by (simp add: find_None_iff)
  with None \<open>\<forall>t\<in>set (tools st). \<not> isSupported t ob\<close> show ?thesis
    by (auto simp: setObject_unfold loop_fields)
next
  case (Some f)
  then have f: "f \<in> set (tools st)" "isSupported f ob"
    using firstTool_supported by fastforce+
  have "Some (tabName f) =
     (if \<exists>t\<in>set (tools st). isSupported t ob \<and> Some (tabName t) = lastTabName st
      then lastTabName st
      else map_option tabName (find (\<lambda>t. isSupported t ob) (tools st)))"
    using firstTool_tabName0 [of ob st] Some by simp
  moreover have "lastTabName (setObject ob st) = Some (tabName f)"
    using Some f by (auto simp: setObject_unfold changeTab_fields loop_fields)
  moreover have "find (\<lambda>t. isSupported t ob) (tools st) \<noteq> None"
    using f by (auto simp: find_None_iff)
  ultimately show ?thesis by (auto split: option.splits)
qed

lemma setObject_containers:
  "containers (setObject ob st) =
     (case snd (setObject_forEach ob (tools st) (st\<lparr>currentTools := []\<rparr>) None) of
        None \<Rightarrow> overwrite (divHit (selector st)) (\<lambda>t. isSupported t ob) (tools st) (containers st)
      | Some f \<Rightarrow> overwrite (divHit (selector st)) (\<lambda>t. tabName t = tabName f) (tools st) (containers st))"
  by (simp add: setObject_unfold loop_fields loop_containers changeTab_fields overwrite_twice
      split: option.splits)

lemma setObject_calls:
  "calls (setObject ob st) =
     calls st @ concat (map (\<lambda>t. [Update t ob, OnFinishChange t (undoRedoCallback t)])
                         (filter (\<lambda>t. isSupported t ob) (tools st)))
       @ (if \<exists>t\<in>set (tools st). isSupported t ob then [DispatchResize] else [])"
proof (cases "snd (setObject_forEach ob (tools st) (st\<lparr>currentTools := []\<rparr>) None)")
  case None
  then show ?thesis
    using firstTool_None [of ob "tools st" "st\<lparr>currentTools := []\<rparr>"]
    by (simp add: setObject_unfold loop_calls)
next
  case (Some f)
  then show ?thesis
    using firstTool_None [of ob "tools st" "st\<lparr>currentTools := []\<rparr>"]
    by (auto simp add: setObject_unfold loop_calls changeTab_fields)
qed

section \<open>Registered tools\<close>

lemma registeredD:
  assumes "registered st"
  shows "distinct (map divId (tools st))" "distinct (map tabName (tools st))"
    "t \<in> set (tools st) \<Longrightarrow> containers st (divId t) \<noteq> None"
    "t \<in> set (tools st) \<Longrightarrow> tabs st (tabName t) \<noteq> None"
    "t \<in> set (tools st) \<Longrightarrow> quickId (divId t)"
  using assms by (auto simp: registered_def list_all_iff)

lemma overwrite_div_own:
  assumes "registered st" and "t \<in> set (tools st)" and "dom m = dom (containers st)"
  shows "overwrite (divHit (selector st)) f (tools st) m (divId t) = Some (f t)"
proof (rule overwrite_own)
  show "distinct (map divId (tools st))" using assms(1) by (rule registeredD)
  show "t \<in> set (tools st)" by fact
  from registeredD(3) [OF assms(1,2)] assms(3) show "m (divId t) \<noteq> None"
    by (auto simp: dom_def)
  fix t' assume "t' \<in> set (tools st)"
  then have "quickId (divId t')" using assms(1) by (rule registeredD(5) [rotated])
  then show "divHit (selector st) t' (divId t) \<longleftrightarrow> divId t' = divId t"
    by (auto simp: divHit_def jqMatches_def)
qed

lemma overwrite_tab_own:
  assumes "registered st" and "t \<in> set (tools st)" and "dom m = dom (tabs st)"
  shows "overwrite tabHit f (tools st) m (tabName t) = Some (f t)"
proof (rule overwrite_own)
  show "distinct (map tabName (tools st))" using assms(1) by (rule registeredD)
  show "t \<in> set (tools st)" by fact
  from registeredD(4) [OF assms(1,2)] assms(3) show "m (tabName t) \<noteq> None"
    by (auto simp: dom_def)
  fix t' :: "'a IEditionTool"
  show "tabHit t' (tabName t) \<longleftrightarrow> tabName t' = tabName t"
    by (auto simp: tabHit_def)
qed

lemma jqSetVisible_dom: "dom (jqSetVisible sel i b m) = dom m"
  by (simp add: jqSetVisible_setWhere setWhere_dom)

lemma containers_addTool_dom:
  "dom (containers (addTool t st)) = insert (divId t) (dom (containers st))"
  by (simp add: addTool_def jqSetVisible_dom)

lemma registered_addTool:
  assumes "registered st" "divId t \<notin> divId ` set (tools st)" "tabName t \<notin> tabName ` set (tools st)"
    and "quickId (divId t)"
  shows "registered (addTool t st)"
proof -
  have d: "dom (containers (addTool t st)) = insert (divId t) (dom (containers st))"
    by (rule containers_addTool_dom)
  have "tools (addTool t st) = tools st @ [t]" "tabs (addTool t st) = (tabs st)(tabName t \<mapsto> False)"
    by (simp_all add: addTool_def)
  with assms d show ?thesis
    by (auto simp: registered_def list_all_iff dom_def)
qed

lemma tools_fold_addTool: "tools (fold addTool ts st) = tools st @ ts"
  by (induction ts arbitrary: st) (simp_all add: addTool_def)

lemma registered_fold_addTool:
  "registered st \<Longrightarrow> distinct (map divId (tools st @ ts)) \<Longrightarrow> distinct (map tabName (tools st @ ts))
   \<Longrightarrow> list_all (\<lambda>t. quickId (divId t)) ts \<Longrightarrow> registered (fold addTool ts st)"
proof (induction ts arbitrary: st)
  case Nil then show ?case by simp
next
  case (Cons t ts)
  have "registered (addTool t st)"
    using Cons.prems by (intro registered_addTool) auto
  moreover have "tools (addTool t st) @ ts = tools st @ t # ts" by (simp add: addTool_def)
  ultimately show ?case using Cons.prems Cons.IH [of "addTool t st"] by simp
qed

lemma registered_construct:
  "distinct (map divId ts) \<Longrightarrow> distinct (map tabName ts) \<Longrightarrow> list_all (\<lambda>t. quickId (divId t)) ts
   \<Longrightarrow> registered (construct sel rootDiv ts)"
  unfolding construct_def by (rule registered_fold_addTool) (simp_all add: registered_def init_def)

lemma registered_changeTab: "registered st \<Longrightarrow> registered (changeTab tg st)"
  using overwrite_dom [of "divHit (selector st)" "\<lambda>t. tabName t = tg" "tools st" "containers st"]
  by (auto simp: registered_def changeTab_fields list_all_iff dom_def)

lemma dom_containers_setObject: "dom (containers (setObject ob st)) = dom (containers st)"
  by (simp add: setObject_containers overwrite_dom split: option.splits)

lemma registered_setObject: "registered st \<Longrightarrow> registered (setObject ob st)"
  using overwrite_dom [of tabHit "\<lambda>t. isSupported t ob" "tools st" "tabs st"]
    dom_containers_setObject [of ob st]
  by (auto simp: registered_def setObject_fields list_all_iff dom_def)

lemma lastTabKnown_addTool: "lastTabKnown st \<Longrightarrow> lastTabKnown (addTool t st)"
  by (auto simp: lastTabKnown_def addTool_def falsy_def split: option.splits)

lemma lastTabKnown_construct: "lastTabKnown (construct sel rootDiv ts)"
proof -
  have "lastTabKnown st \<Longrightarrow> lastTabKnown (fold addTool ts st)" for st :: "'a EditorEditionTools"
    by (induction ts arbitrary: st) (simp_all add: lastTabKnown_addTool)
  then show ?thesis by (simp add: construct_def lastTabKnown_def init_def)
qed

lemma lastTabKnown_changeTab: "lastTabKnown st \<Longrightarrow> lastTabKnown (changeTab tg st)"
  by (auto simp: lastTabKnown_def changeTab_fields split: option.splits)

lemma lastTabKnown_setObject: "lastTabKnown st \<Longrightarrow> lastTabKnown (setObject ob st)"
  by (auto simp: lastTabKnown_def setObject_lastTabName setObject_fields
      split: option.splits dest!: find_SomeD)

lemma exampleManager_fields:
  "tools exampleManager = [sceneTool, nodeTool, lightTool]"
  "lastTabName exampleManager = Some ''Scene''"
  "calls exampleManager = []"
  by (simp_all add: exampleManager_def construct_def init_def addTool_def falsy_def
      sceneTool_def nodeTool_def lightTool_def)

lemma exampleTools:
  "divId sceneTool = ''SCENE-TOOL''" "tabName sceneTool = ''Scene''"
  "divId nodeTool = ''NODE-TOOL''" "tabName nodeTool = ''Node''"
  "divId lightTool = ''LIGHT-TOOL''" "tabName lightTool = ''Light''"
  "isSupported sceneTool ob \<longleftrightarrow> ob = Some 0"
  "isSupported nodeTool ob \<longleftrightarrow> ob = Some 1 \<or> ob = Some 2"
  "isSupported lightTool ob \<longleftrightarrow> ob = Some 2"
  by (simp_all add: sceneTool_def nodeTool_def lightTool_def)

lemma quickId_examples:
  "quickId ''SCENE-TOOL''" "quickId ''NODE-TOOL''" "quickId ''LIGHT-TOOL''"
  "quickId ''MESH-TOOL''" "quickId ''CAMERA-TOOL''" "\<not> quickId ''NODE.TOOL''"
  by (simp_all add: quickId_def wordChar_def)

lemma registered_exampleManager: "registered exampleManager"
  unfolding exampleManager_def
  by (rule registered_construct) (simp_all add: exampleTools quickId_examples)

lemma sharedTabManager_eq:
  "sharedTabManager =
     \<lparr> tools = [meshTool, cameraTool], currentTools = [], root = ''EDITION'',
       tabs = [''Object'' \<mapsto> False], currentObject = None, lastTabName = Some ''Object'',
       containers = [''MESH-TOOL'' \<mapsto> False, ''CAMERA-TOOL'' \<mapsto> False],
       calls = [], selector = (\<lambda>i e. False) \<rparr>"
  by (simp add: sharedTabManager_def construct_def init_def addTool_def falsy_def
      meshTool_def cameraTool_def jqSetVisible_def jqMatches_def quickId_examples fun_eq_iff)

lemma sharedContainerManager_eq:
  "sharedContainerManager =
     \<lparr> tools = [groundTool, meshTool], currentTools = [], root = ''EDITION'',
       tabs = [''Ground'' \<mapsto> False, ''Object'' \<mapsto> False], currentObject = None,
       lastTabName = Some ''Ground'',
       containers = [''MESH-TOOL'' \<mapsto> False],
       calls = [], selector = (\<lambda>i e. False) \<rparr>"
  by (simp add: sharedContainerManager_def construct_def init_def addTool_def falsy_def
      meshTool_def groundTool_def jqSetVisible_def jqMatches_def quickId_examples fun_eq_iff)

lemma dottedManager_eq:
  "dottedManager =
     \<lparr> tools = [dottedTool], currentTools = [], root = ''EDITION'',
       tabs = [''Node'' \<mapsto> False], currentObject = None,
       lastTabName = Some ''Node'',
       containers = [''NODE.TOOL'' \<mapsto> True],
       calls = [], selector = (\<lambda>i e. False) \<rparr>"
  by (simp add: dottedManager_def construct_def init_def addTool_def falsy_def
      dottedTool_def jqSetVisible_def jqMatches_def quickId_examples fun_eq_iff)

section \<open>Claims about the edition tools manager\<close>

text \<open>
  Claim C1. \<open>setObject\<close> calls \<open>changeTab\<close> with \<open>lastTabName\<close> when a tool that supports
  the object has that tab name, and otherwise with the tab name of the first tool, in
  the order of registration, that supports the object; that tab name is \<open>lastTabName\<close>
  afterwards. When no tool supports the object, \<open>changeTab\<close> is not called:
  \<open>lastTabName\<close> stays and no call is made at all.
\<close>

theorem setObject_selects_tab:
  "setObject ob st =
     (case (if \<exists>t\<in>set (tools st). isSupported t ob \<and> Some (tabName t) = lastTabName st
            then lastTabName st
            else map_option tabName (find (\<lambda>t. isSupported t ob) (tools st))) of
        None \<Rightarrow> fst (setObject_forEach ob (tools st) (st\<lparr>currentTools := []\<rparr>) None)
      | Some target \<Rightarrow>
          changeTab target (fst (setObject_forEach ob (tools st) (st\<lparr>currentTools := []\<rparr>) None)))
     \<lparr>currentObject := ob\<rparr> \<and>
   ((\<exists>t\<in>set (tools st). isSupported t ob) \<longrightarrow>
       lastTabName (setObject ob st) =
         (if \<exists>t\<in>set (tools st). isSupported t ob \<and> Some (tabName t) = lastTabName st
          then lastTabName st
          else map_option tabName (find (\<lambda>t. isSupported t ob) (tools st)))) \<and>
   ((\<forall>t\<in>set (tools st). \<not> isSupported t ob) \<longrightarrow>
       lastTabName (setObject ob st) = lastTabName st \<and> calls (setObject ob st) = calls st)"
proof (intro conjI)
  let ?r = "setObject_forEach ob (tools st) (st\<lparr>currentTools := []\<rparr>) None"
  have eq: "map_option tabName (snd ?r) =
     (if \<exists>t\<in>set (tools st). isSupported t ob \<and> Some (tabName t) = lastTabName st
      then lastTabName st
      else map_option tabName (find (\<lambda>t. isSupported t ob) (tools st)))"
    by (rule firstTool_tabName0)
  show "setObject ob st =
     (case (if \<exists>t\<in>set (tools st). isSupported t ob \<and> Some (tabName t) = lastTabName st
            then lastTabName st
            else map_option tabName (find (\<lambda>t. isSupported t ob) (tools st))) of
        None \<Rightarrow> fst ?r
      | Some target \<Rightarrow> changeTab target (fst ?r))
     \<lparr>currentObject := ob\<rparr>"
    unfolding eq [symmetric] setObject_unfold by (cases "snd ?r") simp_all
  show "(\<exists>t\<in>set (tools st). isSupported t ob) \<longrightarrow>
       lastTabName (setObject ob st) =
         (if \<exists>t\<in>set (tools st). isSupported t ob \<and> Some (tabName t) = lastTabName st
          then lastTabName st
          else map_option tabName (find (\<lambda>t. isSupported t ob) (tools st)))"
    by (auto simp: setObject_lastTabName find_None_iff split: option.splits)
  show "(\<forall>t\<in>set (tools st). \<not> isSupported t ob) \<longrightarrow>
       lastTabName (setObject ob st) = lastTabName st \<and> calls (setObject ob st) = calls st"
    by (auto simp: setObject_lastTabName setObject_calls find_None_iff filter_empty_conv
        split: option.splits dest!: find_SomeD)
qed

text \<open>
  The example manager has the tabs Scene, Node and Light and \<open>lastTabName\<close> Scene.
  Object 2 is supported by the Node and the Light tool: the Node tab becomes active,
  and the Light tab when it was the last one. Object 0 keeps the Scene tab; \<open>null\<close> is
  supported by no tool and changes nothing.
\<close>

theorem setObject_selects_tab_witness:
  "lastTabName (setObject (Some 2) exampleManager) = Some ''Node'' \<and>
   lastTabName (setObject (Some 2) (exampleManager\<lparr>lastTabName := Some ''Light''\<rparr>)) = Some ''Light'' \<and>
   lastTabName (setObject (Some 0) exampleManager) = Some ''Scene'' \<and>
   lastTabName (setObject None exampleManager) = Some ''Scene'' \<and>
   calls (setObject None exampleManager) = []"
  using setObject_selects_tab [of "Some 2" exampleManager, THEN conjunct2]
    setObject_selects_tab [of "Some 2" "exampleManager\<lparr>lastTabName := Some ''Light''\<rparr>", THEN conjunct2]
    setObject_selects_tab [of "Some 0" exampleManager, THEN conjunct2]
    setObject_selects_tab [of None exampleManager, THEN conjunct2]
  by (simp add: exampleManager_fields exampleTools)


lemma setObject_shown_parts:
  assumes "registered st"
  shows "\<forall>t\<in>set (tools st).
           (tabs (setObject ob st) (tabName t) = Some True \<longleftrightarrow> isSupported t ob) \<and>
           (t \<in> set (currentTools (setObject ob st)) \<longleftrightarrow> isSupported t ob)"
    and "currentTools (setObject ob st) = filter (\<lambda>t. isSupported t ob) (tools st)"
    and "\<forall>t\<in>set (tools st). \<not> isSupported t ob \<longrightarrow>
           tabs (setObject ob st) (tabName t) = Some False \<and>
           containers (setObject ob st) (divId t) = Some False"
proof -
  note r = registeredD [OF assms]
  have tab: "tabs (setObject ob st) (tabName t) = Some (isSupported t ob)" if "t \<in> set (tools st)" for t
    using that by (simp add: setObject_fields overwrite_tab_own [OF assms])
  show "\<forall>t\<in>set (tools st).
           (tabs (setObject ob st) (tabName t) = Some True \<longleftrightarrow> isSupported t ob) \<and>
           (t \<in> set (currentTools (setObject ob st)) \<longleftrightarrow> isSupported t ob)"
    using tab by (simp add: setObject_fields)
  show "currentTools (setObject ob st) = filter (\<lambda>t. isSupported t ob) (tools st)"
    by (simp add: setObject_fields)
  have cont: "containers (setObject ob st) (divId t) = Some False"
    if t: "t \<in> set (tools st)" and ns: "\<not> isSupported t ob" for t
  proof (cases "snd (setObject_forEach ob (tools st) (st\<lparr>currentTools := []\<rparr>) None)")
    case None
    then show ?thesis using t ns by (simp add: setObject_containers overwrite_div_own [OF assms])
  next
    case (Some f)
    then have "f \<in> set (tools st)" "isSupported f ob"
      using firstTool_supported by fastforce+
    with t ns r(2) have "tabName t \<noteq> tabName f"
      by (auto simp: distinct_map dest: inj_onD)
    with Some show ?thesis using t by (simp add: setObject_containers overwrite_div_own [OF assms])
  qed
  show "\<forall>t\<in>set (tools st). \<not> isSupported t ob \<longrightarrow>
           tabs (setObject ob st) (tabName t) = Some False \<and>
           containers (setObject ob st) (divId t) = Some False"
    using tab cont by simp
qed

text \<open>
  Claim C2 says that after \<open>setObject\<close> the tab of every tool is shown exactly when the
  tool supports the object, and that the containers of the other tools are hidden. The
  Mesh tool and the Camera tool share the tab name \<open>Object\<close>, and object 1 is supported
  by the Mesh tool only: the tab of the Mesh tool is hidden by the pass over the Camera
  tool, and the container of the Camera tool is shown by \<open>changeTab\<close>.
\<close>

theorem setObject_shared_tab_hides_supported:
  "meshTool \<in> set (tools sharedTabManager) \<and> isSupported meshTool (Some 1) \<and>
   tabs (setObject (Some 1) sharedTabManager) (tabName meshTool) = Some False \<and>
   cameraTool \<in> set (tools sharedTabManager) \<and> \<not> isSupported cameraTool (Some 1) \<and>
   containers (setObject (Some 1) sharedTabManager) (divId cameraTool) = Some True"
  by (simp add: setObject_def changeTab_def sharedTabManager_eq meshTool_def cameraTool_def
      jqSetVisible_def jqMatches_def quickId_examples setVisible_def)

text \<open>
  The same happens when two tools share a container, and when the id of a container is
  not made of word characters, so that the selector does not find it.
\<close>

lemma setObject_shared_container:
  "\<not> isSupported groundTool (Some 1) \<and>
   containers (setObject (Some 1) sharedContainerManager) (divId groundTool) = Some True"
  by (simp add: setObject_def changeTab_def sharedContainerManager_eq meshTool_def groundTool_def
      jqSetVisible_def jqMatches_def quickId_examples setVisible_def)

lemma setObject_unselectable_container:
  "\<not> isSupported dottedTool (Some 1) \<and>
   containers (setObject (Some 1) dottedManager) (divId dottedTool) = Some True"
  by (simp add: setObject_def changeTab_def dottedManager_eq dottedTool_def
      jqSetVisible_def jqMatches_def quickId_examples setVisible_def)

text \<open>
  Claim C2, amended. The tools are registered: their tab names are pairwise different,
  their container ids are pairwise different and made of word characters, and each has
  its container and its tab, as \<open>addTool\<close> leaves them. Then, after \<open>setObject\<close>, for
  every tool: its tab is shown if and only if it supports the object, and it is in
  \<open>currentTools\<close> if and only if it supports the object; \<open>currentTools\<close> is the list of
  the supporting tools in the order of registration; the tab and the container of a tool
  that does not support the object are hidden.
\<close>

theorem setObject_shows_supported:
  assumes "registered st"
  shows "(\<forall>t\<in>set (tools st).
            (tabs (setObject ob st) (tabName t) = Some True \<longleftrightarrow> isSupported t ob) \<and>
            (t \<in> set (currentTools (setObject ob st)) \<longleftrightarrow> isSupported t ob)) \<and>
         currentTools (setObject ob st) = filter (\<lambda>t. isSupported t ob) (tools st) \<and>
         (\<forall>t\<in>set (tools st). \<not> isSupported t ob \<longrightarrow>
            tabs (setObject ob st) (tabName t) = Some False \<and>
            containers (setObject ob st) (divId t) = Some False)"
  using setObject_shown_parts [OF assms, of ob] by blast

text \<open>
  In the example manager, object 2 is supported by the Node and the Light tool and not
  by the Scene tool.
\<close>

theorem setObject_shows_supported_witness:
  "registered exampleManager \<and>
   currentTools (setObject (Some 2) exampleManager) = [nodeTool, lightTool] \<and>
   tabs (setObject (Some 2) exampleManager) ''Node'' = Some True \<and>
   tabs (setObject (Some 2) exampleManager) ''Light'' = Some True \<and>
   tabs (setObject (Some 2) exampleManager) ''Scene'' = Some False \<and>
   containers (setObject (Some 2) exampleManager) ''SCENE-TOOL'' = Some False"
  using setObject_shows_supported [OF registered_exampleManager, of "Some 2"]
  by (simp add: registered_exampleManager exampleManager_fields exampleTools)

lemma changeTab_parts:
  assumes "registered st"
  shows "\<forall>t\<in>set (tools st). containers (changeTab target st) (divId t) = Some (tabName t = target)"
    and "length (filter (\<lambda>t. containers (changeTab target st) (divId t) = Some True) (tools st)) \<le> 1"
    and "lastTabName (changeTab target st) =
           (if \<exists>t\<in>set (tools st). tabName t = target then Some target else lastTabName st)"
    and "lastTabKnown st \<longrightarrow>
           (lastTabName (changeTab target st) = Some target \<longleftrightarrow> (\<exists>t\<in>set (tools st). tabName t = target))"
proof -
  note r = registeredD [OF assms]
  show c: "\<forall>t\<in>set (tools st). containers (changeTab target st) (divId t) = Some (tabName t = target)"
    by (simp add: changeTab_fields overwrite_div_own [OF assms])
  have "filter (\<lambda>t. containers (changeTab target st) (divId t) = Some True) (tools st)
        = filter (\<lambda>t. tabName t = target) (tools st)"
    using c by (intro filter_cong) auto
  then show "length (filter (\<lambda>t. containers (changeTab target st) (divId t) = Some True) (tools st)) \<le> 1"
    using filter_key_le1 [OF r(2), of target] by simp
  show "lastTabName (changeTab target st) =
           (if \<exists>t\<in>set (tools st). tabName t = target then Some target else lastTabName st)"
    by (simp add: changeTab_fields)
  show "lastTabKnown st \<longrightarrow>
           (lastTabName (changeTab target st) = Some target \<longleftrightarrow> (\<exists>t\<in>set (tools st). tabName t = target))"
    by (auto simp: changeTab_fields lastTabKnown_def split: option.splits)
qed

text \<open>
  Claim C5 says that at most one container of a tool is visible after \<open>changeTab\<close>.
  The Mesh tool and the Camera tool share the tab name \<open>Object\<close>: \<open>changeTab\<close> with that
  target shows the containers of both.
\<close>

theorem changeTab_shared_tab_shows_both:
  "tabName meshTool = ''Object'' \<and> tabName cameraTool = ''Object'' \<and>
   divId meshTool \<noteq> divId cameraTool \<and>
   containers (changeTab ''Object'' sharedTabManager) (divId meshTool) = Some True \<and>
   containers (changeTab ''Object'' sharedTabManager) (divId cameraTool) = Some True"
  by (simp add: changeTab_def sharedTabManager_eq meshTool_def cameraTool_def
      jqSetVisible_def jqMatches_def quickId_examples)

text \<open>
  When two tools share a container, the container of the tool that has the target as
  its tab name may end hidden; a container whose id is not made of word characters is
  not found by the selector and stays as it is.
\<close>

lemma changeTab_shared_container:
  "tabName groundTool = ''Ground'' \<and>
   containers (changeTab ''Ground'' sharedContainerManager) (divId groundTool) = Some False"
  by (simp add: changeTab_def sharedContainerManager_eq meshTool_def groundTool_def
      jqSetVisible_def jqMatches_def quickId_examples)

lemma changeTab_unselectable_container:
  "tabName dottedTool \<noteq> ''Scene'' \<and>
   containers (changeTab ''Scene'' dottedManager) (divId dottedTool) = Some True"
  by (simp add: changeTab_def dottedManager_eq dottedTool_def
      jqSetVisible_def jqMatches_def quickId_examples)

text \<open>
  Claim C5, amended. The tools are registered: their tab names are pairwise different,
  their container ids are pairwise different and made of word characters, and each has
  its container and its tab, as \<open>addTool\<close> leaves them. Then, after \<open>changeTab(target)\<close>,
  the container of a tool is visible exactly when the tool's tab name is the target, so
  at most one container of a tool is visible; \<open>lastTabName\<close> is the target when a tool
  has that tab name and is unchanged otherwise, and, \<open>lastTabName\<close> having been \<open>null\<close>
  or the tab name of a tool before, it is the target afterwards exactly when a tool has
  that tab name.
\<close>

theorem changeTab_shows_target_only:
  assumes "registered st"
  shows "(\<forall>t\<in>set (tools st).
            containers (changeTab target st) (divId t) = Some (tabName t = target)) \<and>
         length (filter (\<lambda>t. containers (changeTab target st) (divId t) = Some True) (tools st)) \<le> 1 \<and>
         lastTabName (changeTab target st) =
           (if \<exists>t\<in>set (tools st). tabName t = target then Some target else lastTabName st) \<and>
         (lastTabKnown st \<longrightarrow>
            (lastTabName (changeTab target st) = Some target \<longleftrightarrow>
             (\<exists>t\<in>set (tools st). tabName t = target)))"
  using changeTab_parts [OF assms, of target] by blast

text \<open>
  In the example manager, the Node tab shows the container of the Node tool only; a
  target that is no tab name hides all three containers and leaves \<open>lastTabName\<close>.
\<close>

theorem changeTab_shows_target_only_witness:
  "registered exampleManager \<and> lastTabKnown exampleManager \<and>
   containers (changeTab ''Node'' exampleManager) ''NODE-TOOL'' = Some True \<and>
   containers (changeTab ''Node'' exampleManager) ''SCENE-TOOL'' = Some False \<and>
   containers (changeTab ''Node'' exampleManager) ''LIGHT-TOOL'' = Some False \<and>
   lastTabName (changeTab ''Node'' exampleManager) = Some ''Node'' \<and>
   containers (changeTab ''Nowhere'' exampleManager) ''SCENE-TOOL'' = Some False \<and>
   lastTabName (changeTab ''Nowhere'' exampleManager) = Some ''Scene''"
  using changeTab_shows_target_only [OF registered_exampleManager, of "''Node''"]
    changeTab_shows_target_only [OF registered_exampleManager, of "''Nowhere''"]
  by (simp add: registered_exampleManager exampleManager_fields exampleTools lastTabKnown_def)


text \<open>
  Claim C6. \<open>setObject\<close> goes through the tools in the order of registration and, for
  each one that supports the object, calls the tool's \<open>update\<close> and then \<open>onFinishChange\<close>
  on the tool's element; it makes no other call apart from the final resize event. So
  a callback is handed over for every tool that supports the object. Every callback that
  is handed over in this call of \<open>setObject\<close>, for a tool \<open>t\<close>, is handed over for a tool
  of the manager that supports the object, and each time it runs it calls
  \<open>UndoRedo.Push\<close> exactly once, with the element whose \<open>baseObject\<close> is the object that
  the tool \<open>t\<close> has at that moment, whose \<open>from\<close> is the initial value and whose \<open>to\<close>
  is the result.
\<close>

theorem setObject_installs_undo_callback:
  "calls (setObject ob st) =
     calls st @ concat (map (\<lambda>t. [Update t ob, OnFinishChange t (undoRedoCallback t)])
                         (filter (\<lambda>t. isSupported t ob) (tools st)))
       @ (if \<exists>t\<in>set (tools st). isSupported t ob then [DispatchResize] else []) \<and>
   (\<forall>t\<in>set (tools st). isSupported t ob \<longrightarrow>
      (\<exists>cb. OnFinishChange t cb \<in> set (drop (length (calls st)) (calls (setObject ob st))))) \<and>
   (\<forall>t cb. OnFinishChange t cb \<in> set (drop (length (calls st)) (calls (setObject ob st))) \<longrightarrow>
      t \<in> set (tools st) \<and> isSupported t ob \<and>
      (\<forall>objects prop result obj initialValue.
         cb objects prop result obj initialValue =
           [\<lparr> baseObject = objects t, property = prop, to_value = result,
               from_value = initialValue, object_value = obj \<rparr>]))"
proof (intro conjI)
  show c: "calls (setObject ob st) =
     calls st @ concat (map (\<lambda>t. [Update t ob, OnFinishChange t (undoRedoCallback t)])
                         (filter (\<lambda>t. isSupported t ob) (tools st)))
       @ (if \<exists>t\<in>set (tools st). isSupported t ob then [DispatchResize] else [])"
    by (rule setObject_calls)
  show "\<forall>t\<in>set (tools st). isSupported t ob \<longrightarrow>
      (\<exists>cb. OnFinishChange t cb \<in> set (drop (length (calls st)) (calls (setObject ob st))))"
    unfolding c by auto
  show "\<forall>t cb. OnFinishChange t cb \<in> set (drop (length (calls st)) (calls (setObject ob st))) \<longrightarrow>
      t \<in> set (tools st) \<and> isSupported t ob \<and>
      (\<forall>objects prop result obj initialValue.
         cb objects prop result obj initialValue =
           [\<lparr> baseObject = objects t, property = prop, to_value = result,
               from_value = initialValue, object_value = obj \<rparr>])"
    unfolding c by (auto simp: undoRedoCallback_def split: if_splits)
qed

text \<open>
  In the example manager, object 2 is supported by the Node tool and the Light tool.
  The Light tool has the object 2 and the Node tool the object 1; a change of the
  property \<open>intensity\<close> of the object 9 from 4 to 5 is pushed with the object of the tool
  whose callback runs.
\<close>

theorem setObject_installs_undo_callback_witness:
  "calls (setObject (Some 2) exampleManager) =
     [Update nodeTool (Some 2), OnFinishChange nodeTool (undoRedoCallback nodeTool),
      Update lightTool (Some 2), OnFinishChange lightTool (undoRedoCallback lightTool),
      DispatchResize] \<and>
   undoRedoCallback lightTool exampleObjects ''intensity'' (Some 5) (Some 9) (Some 4) =
     [\<lparr> baseObject = Some 2, property = ''intensity'', to_value = Some 5,
         from_value = Some 4, object_value = Some 9 \<rparr>] \<and>
   undoRedoCallback nodeTool exampleObjects ''intensity'' (Some 5) (Some 9) (Some 4) =
     [\<lparr> baseObject = Some 1, property = ''intensity'', to_value = Some 5,
         from_value = Some 4, object_value = Some 9 \<rparr>]"
proof -
  note t = setObject_installs_undo_callback [of "Some 2" exampleManager]
  have c: "calls (setObject (Some 2) exampleManager) =
     [Update nodeTool (Some 2), OnFinishChange nodeTool (undoRedoCallback nodeTool),
      Update lightTool (Some 2), OnFinishChange lightTool (undoRedoCallback lightTool),
      DispatchResize]"
    unfolding t [THEN conjunct1] by (simp add: exampleManager_fields exampleTools)
  have m: "OnFinishChange lightTool (undoRedoCallback lightTool)
             \<in> set (drop (length (calls exampleManager)) (calls (setObject (Some 2) exampleManager)))"
    "OnFinishChange nodeTool (undoRedoCallback nodeTool)
             \<in> set (drop (length (calls exampleManager)) (calls (setObject (Some 2) exampleManager)))"
    unfolding c by (simp_all add: exampleManager_fields)
  from t m(1) have "undoRedoCallback lightTool exampleObjects ''intensity'' (Some 5) (Some 9) (Some 4) =
     [\<lparr> baseObject = exampleObjects lightTool, property = ''intensity'', to_value = Some 5,
         from_value = Some 4, object_value = Some 9 \<rparr>]"
    by blast
  moreover from t m(2) have "undoRedoCallback nodeTool exampleObjects ''intensity'' (Some 5) (Some 9) (Some 4) =
     [\<lparr> baseObject = exampleObjects nodeTool, property = ''intensity'', to_value = Some 5,
         from_value = Some 4, object_value = Some 9 \<rparr>]"
    by blast
  ultimately show ?thesis
    using c by (simp add: exampleObjects_def exampleTools)
qed

lemma setObject_twice_parts:
  shows "setObject ob (setObject ob st) = (setObject ob st)\<lparr>calls := calls (setObject ob (setObject ob st))\<rparr>"
  and "currentTools (setObject ob (setObject ob st)) = currentTools (setObject ob st)"
  and "tabs (setObject ob (setObject ob st)) = tabs (setObject ob st)"
  and "containers (setObject ob (setObject ob st)) = containers (setObject ob st)"
  and "lastTabName (setObject ob (setObject ob st)) = lastTabName (setObject ob st)"
  and "currentObject (setObject ob (setObject ob st)) = ob"
  and "lastTabName (refresh (setObject ob st)) = lastTabName (setObject ob st)"
  and "containers (refresh (setObject ob st)) = containers (setObject ob st)"
proof -
  let ?s1 = "setObject ob st"
  let ?r = "\<lambda>s. snd (setObject_forEach ob (tools s) (s\<lparr>currentTools := []\<rparr>) None)"
  show ct: "currentTools (setObject ob ?s1) = currentTools ?s1"
    by (simp add: setObject_fields)
  show tb: "tabs (setObject ob ?s1) = tabs ?s1"
    by (simp add: setObject_fields overwrite_twice)
  show co: "currentObject (setObject ob ?s1) = ob"
    by (simp add: setObject_fields)
  have name: "map_option tabName (?r ?s1) = map_option tabName (?r st)"
  proof (cases "?r st")
    case None
    then have "\<forall>t\<in>set (tools st). \<not> isSupported t ob" by (simp add: firstTool_None)
    then have "?r ?s1 = None" by (simp add: firstTool_None setObject_fields)
    with None show ?thesis by simp
  next
    case (Some f)
    then have f: "f \<in> set (tools st)" "isSupported f ob"
      using firstTool_supported by fastforce+
    have "lastTabName ?s1 = Some (tabName f)"
      using Some f by (auto simp: setObject_unfold changeTab_fields loop_fields)
    then have "map_option tabName (?r ?s1) = Some (tabName f)"
      using f firstTool_tabName0 [of ob ?s1] by (auto simp: setObject_fields)
    with Some show ?thesis by simp
  qed
  show lt: "lastTabName (setObject ob ?s1) = lastTabName ?s1"
  proof (cases "?r st")
    case None
    then have "\<forall>t\<in>set (tools st). \<not> isSupported t ob" by (simp add: firstTool_None)
    then show ?thesis
      by (auto simp: setObject_lastTabName [of ob ?s1] setObject_fields
          split: option.splits dest!: find_SomeD)
  next
    case (Some f)
    then have f: "f \<in> set (tools st)" "isSupported f ob"
      using firstTool_supported by fastforce+
    have "lastTabName ?s1 = Some (tabName f)"
      using Some f by (auto simp: setObject_unfold changeTab_fields loop_fields)
    with f show ?thesis
      by (auto simp: setObject_lastTabName [of ob ?s1] setObject_fields)
  qed
  show cn: "containers (setObject ob ?s1) = containers ?s1"
  proof (cases "?r ?s1")
    case None
    with name have "?r st = None" by simp
    with None show ?thesis
      by (simp add: setObject_containers [of ob ?s1] setObject_containers [of ob st]
          setObject_fields overwrite_twice)
  next
    case (Some g)
    with name obtain f where f: "?r st = Some f" "tabName f = tabName g"
      by (cases "?r st") auto
    with Some show ?thesis
      by (simp add: setObject_containers [of ob ?s1] setObject_containers [of ob st]
          setObject_fields overwrite_twice)
  qed
  have "tools (setObject ob ?s1) = tools ?s1" "root (setObject ob ?s1) = root ?s1"
    by (simp_all add: setObject_fields)
  with ct tb co lt cn show "setObject ob ?s1 = ?s1\<lparr>calls := calls (setObject ob ?s1)\<rparr>"
    by (intro EditorEditionTools.equality) (simp_all add: setObject_fields)
  show "lastTabName (refresh ?s1) = lastTabName ?s1"
    using lt by (simp add: refresh_def setObject_fields)
  show "containers (refresh ?s1) = containers ?s1"
    using cn by (simp add: refresh_def setObject_fields)
qed

text \<open>
  Claim C10. A second \<open>setObject\<close> with the same object leaves \<open>currentTools\<close>, the
  visibility of the tabs and of the containers, \<open>lastTabName\<close> and \<open>currentObject\<close> as
  the first call left them: the two states differ in nothing but the list of calls
  made, which the second call extends. \<open>refresh\<close> after \<open>setObject\<close> changes neither
  \<open>lastTabName\<close> nor the visible containers.
\<close>

theorem setObject_twice:
  "setObject ob (setObject ob st) =
     (setObject ob st)\<lparr>calls := calls (setObject ob (setObject ob st))\<rparr> \<and>
   currentTools (setObject ob (setObject ob st)) = currentTools (setObject ob st) \<and>
   tabs (setObject ob (setObject ob st)) = tabs (setObject ob st) \<and>
   containers (setObject ob (setObject ob st)) = containers (setObject ob st) \<and>
   lastTabName (setObject ob (setObject ob st)) = lastTabName (setObject ob st) \<and>
   currentObject (setObject ob (setObject ob st)) = ob \<and>
   lastTabName (refresh (setObject ob st)) = lastTabName (setObject ob st) \<and>
   containers (refresh (setObject ob st)) = containers (setObject ob st)"
  by (intro conjI setObject_twice_parts)

section \<open>The texture editor: strings, pixels and frames\<close>

lemma replace_prefix: "pat \<noteq> [] \<Longrightarrow> replace (pat @ n) pat [] = n"
  by (cases pat) (simp_all add: startsWith_def)

lemma copyPixels_length: "length (copyPixels i pixels data) = length data"
  by (induction i pixels data rule: copyPixels.induct) (subst copyPixels.simps, simp)


lemma copyPixels_nth:
  "j < length data \<Longrightarrow>
   copyPixels i pixels data ! j = (if i \<le> j \<and> j < length pixels then pixels ! j else data ! j)"
proof (induction i pixels data rule: copyPixels.induct)
  case (1 i pixels data)
  show ?case
  proof (cases "i < length pixels")
    case True
    let ?d = "if i < length data then data[i := pixels ! i] else data"
    have len: "j < length ?d" using "1.prems" by simp
    have "copyPixels i pixels data ! j = copyPixels (Suc i) pixels ?d ! j"
      using True by (subst copyPixels.simps) simp
    also have "\<dots> = (if Suc i \<le> j \<and> j < length pixels then pixels ! j else ?d ! j)"
      using "1.IH" [OF True len] .
    also have "\<dots> = (if i \<le> j \<and> j < length pixels then pixels ! j else data ! j)"
      using "1.prems" True by (cases "i = j") (auto simp: nth_list_update)
    finally show ?thesis .
  next
    case False
    then show ?thesis by (subst copyPixels.simps) auto
  qed
qed

lemma copyPixels_0:
  "length (copyPixels 0 pixels data) = length data \<and>
   (\<forall>i<length pixels. i < length data \<longrightarrow> copyPixels 0 pixels data ! i = pixels ! i) \<and>
   (length pixels = length data \<longrightarrow> copyPixels 0 pixels data = pixels)"
  by (auto simp: copyPixels_length copyPixels_nth intro!: nth_equalityI)

lemma configure_previewed:
  assumes "currentRenderTarget ed = Some rt"
  shows "\<exists>ed1. configureRenderTarget ed = Inr ed1 \<and>
           previewed rt (fst (getSize (heap ed rt))) (snd (getSize (heap ed rt)))
             (nextImage ed) (nextRef ed) (onAfterRender (heap ed rt)) ed1 \<and>
           targetTexture ed1 = Some (nextRef ed)"
  using assms
  by (cases "getSize (heap ed rt)")
     (simp add: configureRenderTarget_def previewed_def Let_def)

lemma restore_previewed:
  assumes "previewed rt w h img d original ed"
  shows "\<exists>ed2. restorRenderTarget ed = Inr ed2 \<and> onAfterRender (heap ed2 rt) = original \<and>
           dynamicTexture ed2 = None \<and> currentPixels ed2 = None \<and> currentRenderTarget ed2 = None"
  using assms by (simp add: previewed_def restorRenderTarget_def dispose_def Let_def)

lemma preview_render_step:
  assumes "previewed rt w h img d original ed"
  shows "\<exists>ed'. afterRender rt faceIndex pixels ed = Inr ed' \<and>
     effects ed' =
       effects ed @ (case original of None \<Rightarrow> [] | Some cb \<Rightarrow> [CallbackInvoked cb faceIndex])
         @ [ReadPixels 0 0 w h, PutImageData d (imageDatas ed' img), TextureUpdate d] \<and>
     currentPixels ed' = Some pixels \<and>
     length (imageDatas ed' img) = 4 * w * h \<and>
     (\<forall>i<length pixels. i < 4 * w * h \<longrightarrow> imageDatas ed' img ! i = pixels ! i) \<and>
     (length pixels = 4 * w * h \<longrightarrow> imageDatas ed' img = pixels) \<and>
     previewed rt w h img d original ed'"
proof -
  from assms have a: "currentRenderTarget ed = Some rt"
    "onAfterRender (heap ed rt) = Some (PreviewCallback w h img)"
    "dynamicTexture ed = Some d" "currentOnAfterRender ed = original"
    "length (imageDatas ed img) = 4 * w * h"
    by (simp_all add: previewed_def)
  note c = copyPixels_0 [of pixels "imageDatas ed img"]
  show ?thesis
  proof (cases original)
    case None
    with a c show ?thesis
      by (simp add: afterRender_def previewAfterRender_def previewed_def Let_def)
  next
    case (Some cb)
    with a c show ?thesis
      by (simp add: afterRender_def previewAfterRender_def previewed_def Let_def)
  qed
qed

lemma renders_previewed:
  "previewed rt w h img d original ed \<Longrightarrow>
   \<exists>ed'. renders rt rs ed = Inr ed' \<and> previewed rt w h img d original ed'"
proof (induction rs arbitrary: ed)
  case Nil
  then show ?case by simp
next
  case (Cons r rs)
  obtain faceIndex pixels where r: "r = (faceIndex, pixels)" by (cases r)
  from preview_render_step [OF Cons.prems, of faceIndex pixels]
  obtain ed1 where "afterRender rt faceIndex pixels ed = Inr ed1"
    and "previewed rt w h img d original ed1" by blast
  with Cons.IH [of ed1] show ?case by (simp add: r)
qed

lemma onchange_effects:
  "effects (onchange files ed) = effects ed @ map ReadFileAsDataURL files \<and>
   pendingReads (onchange files ed) = pendingReads ed @ files"
  by (induction files arbitrary: ed) simp_all

lemma onReadFileCallback_result:
  "sceneTextures (onReadFileCallback fileName data created ed) = sceneTextures ed @ [nextRef ed] \<and>
   heap (onReadFileCallback fileName data created ed) (nextRef ed) =
     created\<lparr> name := replace (name created) ''data:'' [] \<rparr> \<and>
   effects (onReadFileCallback fileName data created ed) =
     effects ed @ [CreateFromBase64String data fileName] \<and>
   texturesList (onReadFileCallback fileName data created ed) =
     texturesList ed @ [\<lparr> rowName = fileName, recid = int (length (texturesList ed)) - 1 \<rparr>]"
  by (simp add: onReadFileCallback_def Let_def addRow_def getRowCount_def)

lemma readsCompleted_rows:
  "map rowName (texturesList (readsCompleted fs ed)) = map rowName (texturesList ed) @ map fst fs \<and>
   length (sceneTextures (readsCompleted fs ed)) = length (sceneTextures ed) + length fs"
proof (induction fs arbitrary: ed)
  case Nil then show ?case by simp
next
  case (Cons f fs)
  obtain n d c where f: "f = (n, d, c)" by (cases f)
  show ?case
    using Cons.IH [of "onReadFileCallback n d c ed"] onReadFileCallback_result [of n d c ed]
    by (simp add: f)
qed

lemma restore_frame:
  assumes "restorRenderTarget ed = Inr ed'"
  shows "object ed' = object ed" "propertyPath ed' = propertyPath ed"
    "sceneTextures ed' = sceneTextures ed" "filesTextures ed' = filesTextures ed"
    "inheritedMembers ed' = inheritedMembers ed"
    "hasName (heap ed' r) = hasName (heap ed r)"
    "name (heap ed' r) = name (heap ed r)" "buffer (heap ed' r) = buffer (heap ed r)"
    "url (heap ed' r) = url (heap ed r)" "isCube (heap ed' r) = isCube (heap ed r)"
    "isRenderTarget (heap ed' r) = isRenderTarget (heap ed r)"
    "currentRenderTarget ed' = None" "targetTexture ed' = targetTexture ed"
  using assms
  by (auto simp: restorRenderTarget_def dispose_def Let_def split: option.splits if_splits)

lemma restore_ok:
  "currentRenderTarget ed \<noteq> None \<Longrightarrow> dynamicTexture ed \<noteq> None \<Longrightarrow> \<exists>ed'. restorRenderTarget ed = Inr ed'"
  by (auto simp: restorRenderTarget_def Let_def split: option.splits)

lemma restore_error:
  "currentRenderTarget ed \<noteq> None \<Longrightarrow> dynamicTexture ed = None \<Longrightarrow> restorRenderTarget ed = Inl TypeError"
  by (auto simp: restorRenderTarget_def Let_def split: option.splits)

lemma assignSelected_object:
  "object ed = Some f \<Longrightarrow> propertyPath ed = Some p \<Longrightarrow>
   object (assignSelected sel ed) = Some (f(p := TextureRef sel))"
  by (simp add: assignSelected_def)

lemma assignSelected_frame:
  "currentRenderTarget (assignSelected sel ed) = currentRenderTarget ed"
  "dynamicTexture (assignSelected sel ed) = dynamicTexture ed"
  by (simp_all add: assignSelected_def split: option.splits)

lemma showSelected_ok:
  "\<exists>ed'. showSelected parsed so sel ed = Inr ed' \<and> previewing ed' \<and>
     (\<forall>f p. object ed = Some f \<longrightarrow> propertyPath ed = Some p \<longrightarrow>
        object ed' = Some (f(p := TextureRef sel)))" if "previewing ed"
proof (cases "isRenderTarget (heap ed sel)")
  case True
  obtain ed1 where c: "configureRenderTarget (ed\<lparr>currentRenderTarget := Some sel\<rparr>) = Inr ed1"
    and p: "previewed sel (fst (getSize (heap ed sel))) (snd (getSize (heap ed sel)))
              (nextImage ed) (nextRef ed) (onAfterRender (heap ed sel)) ed1"
    using configure_previewed [of "ed\<lparr>currentRenderTarget := Some sel\<rparr>" sel] by auto
  have "object ed1 = object ed" "propertyPath ed1 = propertyPath ed"
    using c by (cases "getSize (heap ed sel)"; simp add: configureRenderTarget_def Let_def; auto)+
  with True c p show ?thesis
    by (auto simp: showSelected_def previewing_def previewed_def assignSelected_frame assignSelected_object)
next
  case False
  with that show ?thesis
    by (cases parsed)
       (auto simp: showSelected_def Let_def previewing_def assignSelected_frame assignSelected_object)
qed

lemma disposeTargetTexture_frame:
  "object (disposeTargetTexture ed) = object ed"
  "propertyPath (disposeTargetTexture ed) = propertyPath ed"
  "previewing (disposeTargetTexture ed) = previewing ed"
  "hasName (heap (disposeTargetTexture ed) r) = hasName (heap ed r)"
  "name (heap (disposeTargetTexture ed) r) = name (heap ed r)"
  "buffer (heap (disposeTargetTexture ed) r) = buffer (heap ed r)"
  "isCube (heap (disposeTargetTexture ed) r) = isCube (heap ed r)"
  "isRenderTarget (heap (disposeTargetTexture ed) r) = isRenderTarget (heap ed r)"
  "filesTexturesMember (disposeTargetTexture ed) n = filesTexturesMember ed n"
  "nextRef (disposeTargetTexture ed) = nextRef ed"
  by (simp_all add: disposeTargetTexture_def dispose_def previewing_def filesTexturesMember_def
      split: option.splits)

lemma onClick_selected_previewing:
  assumes "previewing ed" and "onClick_selected serialized parsed sel ed = Inr ed'"
  shows "previewing ed'"
proof -
  have p1: "previewing (disposeTargetTexture ed)"
    using assms(1) by (simp add: disposeTargetTexture_frame)
  have s: "showSelected parsed so sel (disposeTargetTexture ed) = Inr ed' \<Longrightarrow> previewing ed'" for so
    using showSelected_ok [OF p1, of parsed so sel] by auto
  show ?thesis
    using assms p1 s
    by (auto simp: onClick_selected_def Let_def split: if_splits option.splits)
qed

lemma onClick_selected_assigns:
  assumes "previewing ed" and "object ed = Some f" and "propertyPath ed = Some p"
    and "hasName (heap ed sel)"
  shows "\<exists>ed'. onClick_selected (Some so) parsed sel ed = Inr ed' \<and>
           object ed' =
             (if indexOf (toLowerCase (name (heap ed sel))) ''.hdr'' \<noteq> - 1 \<or>
                 (\<not> truthy (buffer (heap ed sel)) \<and>
                  \<not> filesTexturesMember ed (name (heap ed sel)) \<and> isCube (heap ed sel))
              then Some f else Some (f(p := TextureRef sel)))"
proof -
  let ?ed1 = "disposeTargetTexture ed"
  note fr = disposeTargetTexture_frame [of ed]
  have p1: "previewing ?ed1" "object ?ed1 = Some f" "propertyPath ?ed1 = Some p"
    using assms by (simp_all add: fr)
  have s: "\<exists>ed'. showSelected parsed x sel ?ed1 = Inr ed' \<and>
             object ed' = Some (f(p := TextureRef sel))" for x
    using showSelected_ok [OF p1(1), of parsed x sel] p1(2,3) by blast
  show ?thesis
    using assms(2,4) p1(2) s
    by (simp add: onClick_selected_def Let_def fr)
qed

lemma onClick_selected_keeps_disposed:
  assumes "targetTexture ed = None" and "hasName (heap ed sel)"
    and "\<not> isRenderTarget (heap ed sel)"
  shows "\<exists>ed'. onClick_selected (Some so) parsed sel ed = Inr ed' \<and>
           (\<forall>r. r \<noteq> nextRef ed \<longrightarrow> disposed (heap ed' r) = disposed (heap ed r))"
  using assms
  by (cases parsed)
     (simp_all add: onClick_selected_def disposeTargetTexture_def showSelected_def Let_def
        assignSelected_def split: option.splits)

lemma exampleEditor_fields:
  "currentRenderTarget exampleEditor = None" "dynamicTexture exampleEditor = None"
  "targetTexture exampleEditor = None"
  "sceneTextures exampleEditor = [0, 1, 2]"
  "heap exampleEditor 0 = woodTexture" "heap exampleEditor 1 = skyTexture"
  "heap exampleEditor 2 = mirrorTexture" "heap exampleEditor (Suc 0) = skyTexture"
  "object exampleEditor = Some exampleMaterial"
  "propertyPath exampleEditor = Some ''diffuseTexture''"
  "filesTextures exampleEditor = {}"
  "inheritedMembers exampleEditor = set objectPrototypeMembers"
  "nextRef exampleEditor = 3" "nextImage exampleEditor = 0" "effects exampleEditor = []"
  by (simp_all add: exampleEditor_def constructor_def fillTextureList_def exampleCore_def)

lemma sky_is_hdr: "indexOf (toLowerCase (name skyTexture)) ''.hdr'' = 3"
  by (simp add: skyTexture_def toLowerCase_def toLowerChar_def indexOf_def startsWith_def char_of_eq_iff)

lemma wood_not_hdr: "indexOf (toLowerCase (name woodTexture)) ''.hdr'' = - 1"
  by (simp add: woodTexture_def toLowerCase_def toLowerChar_def indexOf_def startsWith_def char_of_eq_iff)

lemma previewing_exampleEditor: "previewing exampleEditor"
  by (simp add: previewing_def exampleEditor_fields)

lemma previewing_constructor: "previewing (constructor core objName obj path)"
  by (simp add: previewing_def constructor_def fillTextureList_def)

lemma previewing_onClick:
  assumes "previewing ed" and "onClick serialized parsed selected ed = Inr ed'"
  shows "previewing ed'"
proof (cases selected)
  case Nil
  with assms show ?thesis by (simp add: onClick_def)
next
  case (Cons s rest)
  show ?thesis
  proof (cases "currentRenderTarget ed")
    case None
    with assms Cons onClick_selected_previewing [OF assms(1), of serialized parsed "sceneTextures ed ! nat s" ed']
    show ?thesis by (auto simp: onClick_def split: if_splits)
  next
    case (Some rt)
    with assms(1) obtain ed1 where r: "restorRenderTarget ed = Inr ed1"
      using restore_ok [of ed] by (auto simp: previewing_def)
    have "previewing ed1" by (simp add: previewing_def restore_frame [OF r])
    from onClick_selected_previewing [OF this, of serialized parsed "sceneTextures ed1 ! nat s" ed'] assms(2) Cons Some r
    show ?thesis by (auto simp: onClick_def split: if_splits)
  qed
qed

lemma previewing_afterRender:
  "previewing ed \<Longrightarrow> afterRender rt faceIndex pixels ed = Inr ed' \<Longrightarrow> previewing ed'"
  by (auto simp: afterRender_def previewAfterRender_def previewing_def Let_def
      split: option.splits callback.splits)

lemma previewing_onReadFileCallback:
  "previewing ed \<Longrightarrow> previewing (onReadFileCallback fileName data created ed)"
  by (simp add: onReadFileCallback_def previewing_def Let_def)

lemma previewing_onApply: "previewing ed \<Longrightarrow> previewing (onApply ed)"
  by (simp add: onApply_def previewing_def split: option.splits)

lemma onClick_out_of_range:
  assumes "\<not> (0 \<le> s \<and> s < int (length (sceneTextures ed)))"
  shows "onClick serialized parsed (s # rest) ed = Inl TypeError"
proof (cases "currentRenderTarget ed")
  case None
  with assms show ?thesis by (auto simp: onClick_def)
next
  case (Some rt)
  show ?thesis
  proof (cases "restorRenderTarget ed")
    case (Inl e)
    with Some show ?thesis by (cases e) (simp add: onClick_def)
  next
    case (Inr ed1)
    with Some assms show ?thesis by (auto simp: onClick_def restore_frame [OF Inr])
  qed
qed

lemma cubeEditor_fields:
  "currentRenderTarget cubeEditor = None" "dynamicTexture cubeEditor = None"
  "targetTexture cubeEditor = None"
  "sceneTextures cubeEditor = [0, 1]"
  "heap cubeEditor 0 = skyboxTexture" "heap cubeEditor 1 = constructorTexture"
  "heap cubeEditor (Suc 0) = constructorTexture"
  "object cubeEditor = Some exampleMaterial"
  "propertyPath cubeEditor = Some ''diffuseTexture''"
  "filesTextures cubeEditor = {}"
  "inheritedMembers cubeEditor = set objectPrototypeMembers"
  by (simp_all add: cubeEditor_def constructor_def fillTextureList_def cubeCore_def)

lemma previewing_cubeEditor: "previewing cubeEditor"
  by (simp add: previewing_def cubeEditor_fields)

lemma skybox_not_hdr: "indexOf (toLowerCase (name skyboxTexture)) ''.hdr'' = - 1"
  by (simp add: skyboxTexture_def toLowerCase_def toLowerChar_def indexOf_def startsWith_def char_of_eq_iff)

lemma constructor_not_hdr: "indexOf (toLowerCase (name constructorTexture)) ''.hdr'' = - 1"
  by (simp add: constructorTexture_def toLowerCase_def toLowerChar_def indexOf_def startsWith_def char_of_eq_iff)

lemma cube_members:
  "\<not> filesTexturesMember cubeEditor (name skyboxTexture)"
  "filesTexturesMember cubeEditor (name constructorTexture)"
  "\<not> filesTexturesMember exampleEditor (name woodTexture)"
  by (simp_all add: filesTexturesMember_def cubeEditor_fields exampleEditor_fields
      objectPrototypeMembers_def skyboxTexture_def constructorTexture_def woodTexture_def)

lemma example_textures:
  "hasName woodTexture" "hasName skyTexture" "hasName skyboxTexture" "hasName constructorTexture"
  "\<not> truthy (buffer woodTexture)" "\<not> truthy (buffer skyboxTexture)"
  "\<not> truthy (buffer constructorTexture)"
  "\<not> isCube woodTexture" "isCube skyboxTexture" "isCube constructorTexture"
  "\<not> isRenderTarget woodTexture"
  "\<not> disposed woodTexture" "\<not> disposed skyTexture" "\<not> disposed mirrorTexture"
  by (simp_all add: woodTexture_def skyTexture_def skyboxTexture_def constructorTexture_def
      mirrorTexture_def truthy_def)

lemma mirrorPreview_fields:
  "currentRenderTarget mirrorPreview = Some 2"
  "getSize (heap mirrorPreview 2) = (1, 1)"
  "onAfterRender (heap mirrorPreview 2) = Some (UserCallback 7)"
  "nextImage mirrorPreview = 0" "nextRef mirrorPreview = 3" "effects mirrorPreview = []"
  by (simp_all add: mirrorPreview_def exampleEditor_fields mirrorTexture_def)

lemma fold_addRow: "fold (\<lambda>i rows. addRow (g i) rows) xs acc = acc @ map g xs"
  by (induction xs arbitrary: acc) (simp_all add: addRow_def)

lemma fillTextureList_rows:
  "map rowName (texturesList (fillTextureList ed)) = map (\<lambda>r. name (heap ed r)) (sceneTextures ed)"
proof -
  have "map (\<lambda>i. name (heap ed (sceneTextures ed ! i))) [0 ..< length (sceneTextures ed)]
        = map (\<lambda>r. name (heap ed r)) (map ((!) (sceneTextures ed)) [0 ..< length (sceneTextures ed)])"
    by simp
  also have "\<dots> = map (\<lambda>r. name (heap ed r)) (sceneTextures ed)"
    by (simp only: map_nth)
  finally show ?thesis
    by (simp add: fillTextureList_def fold_addRow o_def)
qed

lemma exampleEditor_rows:
  "map rowName (texturesList exampleEditor) = [''wood.png'', ''Sky.HDR'', ''mirror'']"
  unfolding exampleEditor_def constructor_def fillTextureList_rows
  by (simp add: exampleCore_def woodTexture_def skyTexture_def mirrorTexture_def)

section \<open>Claims about the texture editor\<close>

text \<open>
  Claim C3 says that every click with a non-empty selection assigns the selected texture
  to \<open>object[propertyPath]\<close>. The handler returns before the assignment when the
  lower-cased name of the selected texture contains \<open>.hdr\<close>: in the example editor the
  texture at index 1 is named \<open>Sky.HDR\<close>, the click leaves the editor as it was, and
  \<open>diffuseTexture\<close> is not the selected texture.
\<close>

theorem onClick_hdr_not_assigned:
  "onClick (Some skySerialized) (Some skyTexture) [1] exampleEditor = Inr exampleEditor \<and>
   propertyOf exampleEditor ''diffuseTexture'' \<noteq> TextureRef (sceneTextures exampleEditor ! 1)"
  by (simp add: onClick_def onClick_selected_def exampleEditor_fields sky_is_hdr propertyOf_def
      exampleMaterial_def example_textures)

text \<open>
  It also returns before the assignment for a cube texture that has neither a \<open>_buffer\<close>
  nor a member under its name in \<open>FilesInput.FilesTextures\<close>. A cube texture named
  \<open>constructor\<close> is assigned: every object has a member of that name.
\<close>

lemma onClick_cube_not_assigned:
  "onClick (Some skyboxSerialized) (Some skyboxTexture) [0] cubeEditor = Inr cubeEditor"
  by (simp add: onClick_def onClick_selected_def cubeEditor_fields skybox_not_hdr
      disposeTargetTexture_def cube_members example_textures)

text \<open>
  Claim C3, amended. The editor has an object and a property path, \<open>selected[0]\<close> is an
  index of the texture list of the scene, the \<open>name\<close> of the selected texture is a string,
  \<open>serialize\<close> returns an object, and there is a dynamic texture if a render target is
  previewed. Then the click succeeds. It leaves \<open>object\<close> as it was when the lower-cased
  name of the selected texture contains \<open>.hdr\<close>, and when the texture is a cube texture
  whose \<open>_buffer\<close> is not truthy and under whose name \<open>FilesInput.FilesTextures\<close> has no
  member, of its own or inherited. In every other case it assigns the selected texture to
  \<open>object[propertyPath]\<close>.
\<close>

theorem onClick_assigns_selected:
  assumes "previewing ed" and "object ed = Some f" and "propertyPath ed = Some p"
    and "0 \<le> s" and "s < int (length (sceneTextures ed))"
    and "hasName (heap ed (sceneTextures ed ! nat s))"
  shows "\<exists>ed'. onClick (Some so) parsed (s # rest) ed = Inr ed' \<and>
           object ed' =
             (if indexOf (toLowerCase (name (heap ed (sceneTextures ed ! nat s)))) ''.hdr'' \<noteq> - 1 \<or>
                 (\<not> truthy (buffer (heap ed (sceneTextures ed ! nat s))) \<and>
                  \<not> filesTexturesMember ed (name (heap ed (sceneTextures ed ! nat s))) \<and>
                  isCube (heap ed (sceneTextures ed ! nat s)))
              then Some f
              else Some (f(p := TextureRef (sceneTextures ed ! nat s))))"
proof (cases "currentRenderTarget ed")
  case None
  with assms(4,5) onClick_selected_assigns [OF assms(1,2,3,6), of so parsed]
  show ?thesis by (simp add: onClick_def)
next
  case (Some rt)
  with assms(1) obtain ed1 where r: "restorRenderTarget ed = Inr ed1"
    using restore_ok [of ed] by (auto simp: previewing_def)
  note fr = restore_frame [OF r]
  have m: "filesTexturesMember ed1 n = filesTexturesMember ed n" for n
    by (simp add: filesTexturesMember_def fr)
  have "previewing ed1" by (simp add: previewing_def fr)
  from onClick_selected_assigns [OF this, of f p "sceneTextures ed ! nat s" so parsed]
  obtain ed' where "onClick_selected (Some so) parsed (sceneTextures ed ! nat s) ed1 = Inr ed'"
    "object ed' =
       (if indexOf (toLowerCase (name (heap ed (sceneTextures ed ! nat s)))) ''.hdr'' \<noteq> - 1 \<or>
           (\<not> truthy (buffer (heap ed (sceneTextures ed ! nat s))) \<and>
            \<not> filesTexturesMember ed (name (heap ed (sceneTextures ed ! nat s))) \<and>
            isCube (heap ed (sceneTextures ed ! nat s)))
        then Some f
        else Some (f(p := TextureRef (sceneTextures ed ! nat s))))"
    using assms by (auto simp: fr m)
  with Some r assms(4,5) show ?thesis by (simp add: onClick_def fr)
qed

text \<open>
  In the example editor the texture at index 0 is \<open>wood.png\<close>, which is not a cube
  texture: after the click \<open>diffuseTexture\<close> refers to it. In the editor of the scene
  with the two cube textures, a click on \<open>skybox\<close> leaves \<open>diffuseTexture\<close> as it was,
  and a click on \<open>constructor\<close> makes \<open>diffuseTexture\<close> refer to that texture.
\<close>

theorem onClick_assigns_selected_witness:
  "previewing exampleEditor \<and> object exampleEditor = Some exampleMaterial \<and>
   propertyPath exampleEditor = Some ''diffuseTexture'' \<and>
   hasName (heap exampleEditor (sceneTextures exampleEditor ! nat 0)) \<and>
   (case onClick (Some woodSerialized) (Some woodTexture) [0] exampleEditor of
      Inl e \<Rightarrow> False
    | Inr ed' \<Rightarrow> propertyOf ed' ''diffuseTexture'' = TextureRef 0) \<and>
   (case onClick (Some skyboxSerialized) (Some skyboxTexture) [0] cubeEditor of
      Inl e \<Rightarrow> False
    | Inr ed' \<Rightarrow> propertyOf ed' ''diffuseTexture'' = OtherValue 0) \<and>
   (case onClick (Some constructorSerialized) (Some constructorTexture) [1] cubeEditor of
      Inl e \<Rightarrow> False
    | Inr ed' \<Rightarrow> propertyOf ed' ''diffuseTexture'' = TextureRef 1)"
proof -
  have "\<exists>ed'. onClick (Some woodSerialized) (Some woodTexture) (0 # []) exampleEditor = Inr ed' \<and>
           object ed' = Some (exampleMaterial(''diffuseTexture'' := TextureRef 0))"
    using onClick_assigns_selected [of exampleEditor exampleMaterial "''diffuseTexture''" 0
        woodSerialized "Some woodTexture" "[]"]
    by (simp add: previewing_exampleEditor exampleEditor_fields wood_not_hdr cube_members
        example_textures)
  moreover
  have "\<exists>ed'. onClick (Some skyboxSerialized) (Some skyboxTexture) (0 # []) cubeEditor = Inr ed' \<and>
           object ed' = Some exampleMaterial"
    using onClick_assigns_selected [of cubeEditor exampleMaterial "''diffuseTexture''" 0
        skyboxSerialized "Some skyboxTexture" "[]"]
    by (simp add: previewing_cubeEditor cubeEditor_fields skybox_not_hdr cube_members
        example_textures)
  moreover
  have "\<exists>ed'. onClick (Some constructorSerialized) (Some constructorTexture) (1 # []) cubeEditor = Inr ed' \<and>
           object ed' = Some (exampleMaterial(''diffuseTexture'' := TextureRef 1))"
    using onClick_assigns_selected [of cubeEditor exampleMaterial "''diffuseTexture''" 1
        constructorSerialized "Some constructorTexture" "[]"]
    by (simp add: previewing_cubeEditor cubeEditor_fields constructor_not_hdr cube_members
        example_textures)
  ultimately show ?thesis
    by (auto simp: previewing_exampleEditor exampleEditor_fields propertyOf_def
        exampleMaterial_def example_textures)
qed

text \<open>
  Claim C4 says that no handler dereferences a texture reference that may be \<open>null\<close> or
  \<open>undefined\<close> without a check. The click handler reads the \<open>name\<close> of
  \<open>textures[selected[0]]\<close> unchecked: the example scene has three textures, and a click
  with the index 3 ends in a \<open>TypeError\<close>.
\<close>

theorem onClick_unchecked_index:
  "onClick (Some woodSerialized) (Some woodTexture) [3] exampleEditor = Inl TypeError"
  by (simp add: onClick_def exampleEditor_fields)

text \<open>
  Claim C4, amended. The constructor, given an object and a property path, sets
  \<open>_targetObject\<close> to \<open>null\<close> when \<open>object[propertyPath]\<close> is not a texture; the
  post-process does nothing when \<open>_targetTexture\<close> is \<open>null\<close>; and \<open>_targetTexture\<close> is
  checked before it is disposed: with \<open>_targetTexture\<close> \<open>null\<close> and no render target
  previewed, a click on a texture of the list that has a name and is not a render target,
  \<open>serialize\<close> returning an object, succeeds and disposes no texture. The texture
  \<open>textures[selected[0]]\<close> is dereferenced without a check: a click with a non-empty
  selection ends in a \<open>TypeError\<close> when \<open>selected[0]\<close> is not an index of the texture
  list of the scene.
\<close>

theorem texture_presence_checks:
  "(p \<noteq> [] \<longrightarrow> (\<forall>r. f p \<noteq> TextureRef r) \<longrightarrow>
      targetObject (constructor core objName (Some f) (Some p)) = Null) \<and>
   (targetTexture ed = None \<longrightarrow> onApply ed = ed) \<and>
   (targetTexture ed = None \<longrightarrow> currentRenderTarget ed = None \<longrightarrow>
    0 \<le> i \<longrightarrow> i < int (length (sceneTextures ed)) \<longrightarrow>
    hasName (heap ed (sceneTextures ed ! nat i)) \<longrightarrow>
    \<not> isRenderTarget (heap ed (sceneTextures ed ! nat i)) \<longrightarrow>
      (\<exists>ed'. onClick (Some so) parsed (i # rest) ed = Inr ed' \<and>
             (\<forall>r. r \<noteq> nextRef ed \<longrightarrow> disposed (heap ed' r) = disposed (heap ed r)))) \<and>
   (\<not> (0 \<le> s \<and> s < int (length (sceneTextures ed))) \<longrightarrow>
      onClick serialized parsed (s # rest) ed = Inl TypeError)"
proof (intro conjI impI)
  assume "p \<noteq> []" and "\<forall>r. f p \<noteq> TextureRef r"
  then show "targetObject (constructor core objName (Some f) (Some p)) = Null"
    by (cases "f p") (simp_all add: constructor_def fillTextureList_def)
next
  assume "targetTexture ed = None"
  then show "onApply ed = ed" by (simp add: onApply_def)
next
  assume "targetTexture ed = None" and "currentRenderTarget ed = None"
    and "0 \<le> i" and "i < int (length (sceneTextures ed))"
    and "hasName (heap ed (sceneTextures ed ! nat i))"
    and "\<not> isRenderTarget (heap ed (sceneTextures ed ! nat i))"
  then show "\<exists>ed'. onClick (Some so) parsed (i # rest) ed = Inr ed' \<and>
             (\<forall>r. r \<noteq> nextRef ed \<longrightarrow> disposed (heap ed' r) = disposed (heap ed r))"
    using onClick_selected_keeps_disposed [of ed "sceneTextures ed ! nat i" so parsed]
    by (simp add: onClick_def)
next
  assume "\<not> (0 \<le> s \<and> s < int (length (sceneTextures ed)))"
  then show "onClick serialized parsed (s # rest) ed = Inl TypeError"
    by (rule onClick_out_of_range)
qed

text \<open>
  In the example editor \<open>diffuseTexture\<close> is not a texture, \<open>_targetTexture\<close> is \<open>null\<close>
  and no render target is previewed; a click on \<open>wood.png\<close> at index 0 succeeds and none
  of the three textures is disposed afterwards; the index \<open>-1\<close> is not an index of the
  list.
\<close>

theorem texture_presence_checks_witness:
  "targetTexture exampleEditor = None \<and> currentRenderTarget exampleEditor = None \<and>
   targetObject exampleEditor = Null \<and>
   onApply exampleEditor = exampleEditor \<and>
   (case onClick (Some woodSerialized) (Some woodTexture) [0] exampleEditor of
      Inl e \<Rightarrow> False
    | Inr ed' \<Rightarrow> \<not> disposed (heap ed' 0) \<and> \<not> disposed (heap ed' 1) \<and> \<not> disposed (heap ed' 2)) \<and>
   onClick (Some woodSerialized) (Some woodTexture) [- 1] exampleEditor = Inl TypeError"
proof -
  note t = texture_presence_checks [of "''diffuseTexture''" exampleMaterial exampleCore None
      exampleEditor 0 woodSerialized "Some woodTexture" "[]" "- 1" "Some woodSerialized"]
  have "targetObject exampleEditor = Null"
    using t by (simp add: exampleEditor_def exampleMaterial_def)
  moreover have "onApply exampleEditor = exampleEditor"
    using t by (simp add: exampleEditor_fields)
  moreover have "\<exists>ed'. onClick (Some woodSerialized) (Some woodTexture) [0] exampleEditor = Inr ed' \<and>
             (\<forall>r. r \<noteq> nextRef exampleEditor \<longrightarrow>
                  disposed (heap ed' r) = disposed (heap exampleEditor r))"
    using t by (simp add: exampleEditor_fields example_textures)
  then have "case onClick (Some woodSerialized) (Some woodTexture) [0] exampleEditor of
      Inl e \<Rightarrow> False
    | Inr ed' \<Rightarrow> \<not> disposed (heap ed' 0) \<and> \<not> disposed (heap ed' 1) \<and> \<not> disposed (heap ed' 2)"
    by (auto simp: exampleEditor_fields example_textures)
  moreover have "onClick (Some woodSerialized) (Some woodTexture) [- 1] exampleEditor = Inl TypeError"
    using t by (simp add: exampleEditor_fields)
  ultimately show ?thesis by (simp add: exampleEditor_fields)
qed

text \<open>
  The \<open>name\<close> of the selected texture and the object that \<open>serialize\<close> returns are
  used without a check as well: a click on a texture whose \<open>name\<close> is not a string, and
  a click on a texture with a \<open>_buffer\<close> for which \<open>serialize\<close> returns \<open>null\<close>, end in a
  \<open>TypeError\<close>.
\<close>

lemma onClick_name_unchecked:
  "currentRenderTarget ed = None \<Longrightarrow> 0 \<le> s \<Longrightarrow> s < int (length (sceneTextures ed)) \<Longrightarrow>
   \<not> hasName (heap ed (sceneTextures ed ! nat s)) \<Longrightarrow>
   onClick serialized parsed (s # rest) ed = Inl TypeError"
  by (simp add: onClick_def onClick_selected_def)

lemma onClick_serialize_unchecked:
  "currentRenderTarget ed = None \<Longrightarrow> 0 \<le> s \<Longrightarrow> s < int (length (sceneTextures ed)) \<Longrightarrow>
   hasName (heap ed (sceneTextures ed ! nat s)) \<Longrightarrow>
   indexOf (toLowerCase (name (heap ed (sceneTextures ed ! nat s)))) ''.hdr'' = - 1 \<Longrightarrow>
   truthy (buffer (heap ed (sceneTextures ed ! nat s))) \<Longrightarrow>
   onClick None parsed (s # rest) ed = Inl TypeError"
  by (simp add: onClick_def onClick_selected_def Let_def disposeTargetTexture_frame)

text \<open>
  Claim C7. With \<open>rt\<close> as the current render target, \<open>_configureRenderTarget\<close> succeeds
  and installs the replacement callback on \<open>rt\<close>. After any number of renders of \<open>rt\<close>,
  the callback succeeds at the next render: it first invokes the callback that \<open>rt\<close> had
  before, when there was one, then reads the pixels, then puts the image data into the
  dynamic texture and updates it. The image data has four bytes per pixel and holds byte
  \<open>i\<close> of the pixels at every index \<open>i\<close> within it; it is the pixel buffer when the
  engine returns four bytes per pixel.
\<close>

theorem preview_callback_copies_pixels:
  assumes "currentRenderTarget ed0 = Some rt" and "getSize (heap ed0 rt) = (w, h)"
  shows "\<exists>ed1. configureRenderTarget ed0 = Inr ed1 \<and>
           onAfterRender (heap ed1 rt) = Some (PreviewCallback w h (nextImage ed0)) \<and>
           (\<forall>rs. \<exists>ed. renders rt rs ed1 = Inr ed \<and>
              (\<forall>faceIndex pixels. \<exists>ed'. afterRender rt faceIndex pixels ed = Inr ed' \<and>
                 effects ed' =
                   effects ed @ (case onAfterRender (heap ed0 rt) of
                                   None \<Rightarrow> [] | Some cb \<Rightarrow> [CallbackInvoked cb faceIndex])
                     @ [ReadPixels 0 0 w h,
                        PutImageData (nextRef ed0) (imageDatas ed' (nextImage ed0)),
                        TextureUpdate (nextRef ed0)] \<and>
                 currentPixels ed' = Some pixels \<and>
                 length (imageDatas ed' (nextImage ed0)) = 4 * w * h \<and>
                 (\<forall>i<length pixels. i < 4 * w * h \<longrightarrow>
                    imageDatas ed' (nextImage ed0) ! i = pixels ! i) \<and>
                 (length pixels = 4 * w * h \<longrightarrow> imageDatas ed' (nextImage ed0) = pixels)))"
proof -
  from configure_previewed [OF assms(1)] assms(2)
  obtain ed1 where c: "configureRenderTarget ed0 = Inr ed1"
    and p: "previewed rt w h (nextImage ed0) (nextRef ed0) (onAfterRender (heap ed0 rt)) ed1"
    by auto
  have "\<exists>ed. renders rt rs ed1 = Inr ed \<and>
          (\<forall>faceIndex pixels. \<exists>ed'. afterRender rt faceIndex pixels ed = Inr ed' \<and>
             effects ed' =
               effects ed @ (case onAfterRender (heap ed0 rt) of
                               None \<Rightarrow> [] | Some cb \<Rightarrow> [CallbackInvoked cb faceIndex])
                 @ [ReadPixels 0 0 w h, PutImageData (nextRef ed0) (imageDatas ed' (nextImage ed0)),
                    TextureUpdate (nextRef ed0)] \<and>
             currentPixels ed' = Some pixels \<and>
             length (imageDatas ed' (nextImage ed0)) = 4 * w * h \<and>
             (\<forall>i<length pixels. i < 4 * w * h \<longrightarrow> imageDatas ed' (nextImage ed0) ! i = pixels ! i) \<and>
             (length pixels = 4 * w * h \<longrightarrow> imageDatas ed' (nextImage ed0) = pixels))" for rs
  proof -
    from renders_previewed [OF p, of rs]
    obtain ed where r: "renders rt rs ed1 = Inr ed"
      and q: "previewed rt w h (nextImage ed0) (nextRef ed0) (onAfterRender (heap ed0 rt)) ed"
      by blast
    from preview_render_step [OF q] r show ?thesis by blast
  qed
  moreover from p have "onAfterRender (heap ed1 rt) = Some (PreviewCallback w h (nextImage ed0))"
    by (simp add: previewed_def)
  ultimately show ?thesis using c by blast
qed

text \<open>
  The example render target has one pixel and the callback 7. It is previewed and
  rendered once; at the next render the engine reads back the bytes 10, 20, 30, 40.
\<close>

theorem preview_callback_copies_pixels_witness:
  "currentRenderTarget mirrorPreview = Some 2 \<and> getSize (heap mirrorPreview 2) = (1, 1) \<and>
   (case configureRenderTarget mirrorPreview of
      Inl e \<Rightarrow> False
    | Inr ed1 \<Rightarrow>
        (case renders 2 [(0, [1, 2, 3, 4])] ed1 of
           Inl e \<Rightarrow> False
         | Inr ed \<Rightarrow>
             (case afterRender 2 0 [10, 20, 30, 40] ed of
                Inl e \<Rightarrow> False
              | Inr ed' \<Rightarrow>
                  imageDatas ed' 0 = [10, 20, 30, 40] \<and>
                  effects ed' =
                    effects ed @ [CallbackInvoked (UserCallback 7) 0, ReadPixels 0 0 1 1,
                                  PutImageData 3 [10, 20, 30, 40], TextureUpdate 3])))"
proof -
  from preview_callback_copies_pixels [OF mirrorPreview_fields(1,2)]
  obtain ed1 where c: "configureRenderTarget mirrorPreview = Inr ed1"
    and a: "\<And>rs. \<exists>ed. renders 2 rs ed1 = Inr ed \<and>
              (\<forall>faceIndex pixels. \<exists>ed'. afterRender 2 faceIndex pixels ed = Inr ed' \<and>
                 effects ed' =
                   effects ed @ (case onAfterRender (heap mirrorPreview 2) of
                                   None \<Rightarrow> [] | Some cb \<Rightarrow> [CallbackInvoked cb faceIndex])
                     @ [ReadPixels 0 0 1 1,
                        PutImageData (nextRef mirrorPreview) (imageDatas ed' (nextImage mirrorPreview)),
                        TextureUpdate (nextRef mirrorPreview)] \<and>
                 currentPixels ed' = Some pixels \<and>
                 length (imageDatas ed' (nextImage mirrorPreview)) = 4 * 1 * 1 \<and>
                 (\<forall>i<length pixels. i < 4 * 1 * 1 \<longrightarrow>
                    imageDatas ed' (nextImage mirrorPreview) ! i = pixels ! i) \<and>
                 (length pixels = 4 * 1 * 1 \<longrightarrow> imageDatas ed' (nextImage mirrorPreview) = pixels))"
    by blast
  from a [of "[(0, [1, 2, 3, 4])]"]
  obtain ed where r: "renders 2 [(0, [1, 2, 3, 4])] ed1 = Inr ed"
    and b: "\<And>faceIndex pixels. \<exists>ed'. afterRender 2 faceIndex pixels ed = Inr ed' \<and>
                 effects ed' =
                   effects ed @ (case onAfterRender (heap mirrorPreview 2) of
                                   None \<Rightarrow> [] | Some cb \<Rightarrow> [CallbackInvoked cb faceIndex])
                     @ [ReadPixels 0 0 1 1,
                        PutImageData (nextRef mirrorPreview) (imageDatas ed' (nextImage mirrorPreview)),
                        TextureUpdate (nextRef mirrorPreview)] \<and>
                 (length pixels = 4 * 1 * 1 \<longrightarrow> imageDatas ed' (nextImage mirrorPreview) = pixels)"
    by blast
  from b [of 0 "[10, 20, 30, 40]"]
  obtain ed' where "afterRender 2 0 [10, 20, 30, 40] ed = Inr ed'"
    and "effects ed' =
           effects ed @ (case onAfterRender (heap mirrorPreview 2) of
                           None \<Rightarrow> [] | Some cb \<Rightarrow> [CallbackInvoked cb 0])
             @ [ReadPixels 0 0 1 1,
                PutImageData (nextRef mirrorPreview) (imageDatas ed' (nextImage mirrorPreview)),
                TextureUpdate (nextRef mirrorPreview)]"
    and "imageDatas ed' (nextImage mirrorPreview) = [10, 20, 30, 40]"
    by auto
  with c r show ?thesis by (simp add: mirrorPreview_fields)
qed

text \<open>
  Claim C8. The \<open>onchange\<close> handler starts one read per chosen file. When the read of
  a file completes, one texture is created from the data and the file's name and added
  to the current scene; the first \<open>data:\<close> in its name is removed, which is the prefix
  when the name starts with it; and one row with the file's name is appended to the
  texture list. When the reads of several files complete, the rows added are the file
  names, one each.
\<close>

theorem file_read_adds_texture_and_row:
  "effects (onchange files ed) = effects ed @ map ReadFileAsDataURL files \<and>
   pendingReads (onchange files ed) = pendingReads ed @ files \<and>
   sceneTextures (onReadFileCallback fileName data created ed) = sceneTextures ed @ [nextRef ed] \<and>
   heap (onReadFileCallback fileName data created ed) (nextRef ed) =
     created\<lparr> name := replace (name created) ''data:'' [] \<rparr> \<and>
   (name created = ''data:'' @ n \<longrightarrow>
      name (heap (onReadFileCallback fileName data created ed) (nextRef ed)) = n) \<and>
   effects (onReadFileCallback fileName data created ed) =
     effects ed @ [CreateFromBase64String data fileName] \<and>
   texturesList (onReadFileCallback fileName data created ed) =
     texturesList ed @ [\<lparr> rowName = fileName, recid = int (length (texturesList ed)) - 1 \<rparr>] \<and>
   map rowName (texturesList (readsCompleted fs ed)) = map rowName (texturesList ed) @ map fst fs \<and>
   length (sceneTextures (readsCompleted fs ed)) = length (sceneTextures ed) + length fs"
proof -
  have "name created = ''data:'' @ n \<longrightarrow>
      name (heap (onReadFileCallback fileName data created ed) (nextRef ed)) = n"
    using onReadFileCallback_result [of fileName data created ed]
      replace_prefix [of "''data:''" n] by simp
  with onchange_effects [of files ed] onReadFileCallback_result [of fileName data created ed]
    readsCompleted_rows [of fs ed]
  show ?thesis
    by (elim conjE) (intro conjI; assumption)
qed

text \<open>
  The file \<open>brick.png\<close> is read into the example editor: the engine names the new
  texture \<open>data:brick.png\<close>, the callback renames it to \<open>brick.png\<close>, and the row
  \<open>brick.png\<close> is added after the three rows of the scene's textures.
\<close>

theorem file_read_adds_texture_and_row_witness:
  "name brickTexture = ''data:'' @ ''brick.png'' \<and>
   name (heap (onReadFileCallback ''brick.png'' ''iVBORw0KGgo='' brickTexture exampleEditor) 3) = ''brick.png'' \<and>
   sceneTextures (onReadFileCallback ''brick.png'' ''iVBORw0KGgo='' brickTexture exampleEditor) = [0, 1, 2, 3] \<and>
   map rowName (texturesList (readsCompleted [(''brick.png'', ''iVBORw0KGgo='', brickTexture)] exampleEditor)) =
     [''wood.png'', ''Sky.HDR'', ''mirror'', ''brick.png'']"
proof -
  have n: "name brickTexture = ''data:'' @ ''brick.png''"
    by (simp add: brickTexture_def)
  note t = file_read_adds_texture_and_row [of "[]" exampleEditor "''brick.png''" "''iVBORw0KGgo=''"
      brickTexture "''brick.png''" "[(''brick.png'', ''iVBORw0KGgo='', brickTexture)]"]
  from t n
  have "name (heap (onReadFileCallback ''brick.png'' ''iVBORw0KGgo='' brickTexture exampleEditor)
          (nextRef exampleEditor)) = ''brick.png''"
    by blast
  moreover from t
  have "sceneTextures (onReadFileCallback ''brick.png'' ''iVBORw0KGgo='' brickTexture exampleEditor) =
          sceneTextures exampleEditor @ [nextRef exampleEditor]"
    by blast
  moreover from t
  have "map rowName (texturesList (readsCompleted [(''brick.png'', ''iVBORw0KGgo='', brickTexture)] exampleEditor)) =
          map rowName (texturesList exampleEditor) @ map fst [(''brick.png'', ''iVBORw0KGgo='', brickTexture)]"
    by blast
  ultimately show ?thesis
    using n by (simp add: exampleEditor_fields exampleEditor_rows)
qed

text \<open>
  Claim C9. With \<open>rt\<close> as the current render target, \<open>_configureRenderTarget\<close> and
  then \<open>_restorRenderTarget\<close> both succeed; afterwards the \<open>onAfterRender\<close> of \<open>rt\<close> is
  what it was before, and \<open>_dynamicTexture\<close>, \<open>_currentPixels\<close> and
  \<open>_currentRenderTarget\<close> are \<open>null\<close>. The same holds when \<open>rt\<close> is rendered any number
  of times between the two.
\<close>

theorem configure_restore_round_trip:
  assumes "currentRenderTarget ed = Some rt"
  shows "(\<exists>ed1 ed2. configureRenderTarget ed = Inr ed1 \<and> restorRenderTarget ed1 = Inr ed2 \<and>
            onAfterRender (heap ed2 rt) = onAfterRender (heap ed rt) \<and>
            dynamicTexture ed2 = None \<and> currentPixels ed2 = None \<and>
            currentRenderTarget ed2 = None) \<and>
         (\<exists>ed1. configureRenderTarget ed = Inr ed1 \<and>
           (\<forall>rs. \<exists>ed2 ed3. renders rt rs ed1 = Inr ed2 \<and> restorRenderTarget ed2 = Inr ed3 \<and>
              onAfterRender (heap ed3 rt) = onAfterRender (heap ed rt) \<and>
              dynamicTexture ed3 = None \<and> currentPixels ed3 = None \<and>
              currentRenderTarget ed3 = None))"
proof -
  from configure_previewed [OF assms]
  obtain ed1 where c: "configureRenderTarget ed = Inr ed1"
    and p: "previewed rt (fst (getSize (heap ed rt))) (snd (getSize (heap ed rt)))
              (nextImage ed) (nextRef ed) (onAfterRender (heap ed rt)) ed1"
    by blast
  have g: "\<exists>ed2 ed3. renders rt rs ed1 = Inr ed2 \<and> restorRenderTarget ed2 = Inr ed3 \<and>
              onAfterRender (heap ed3 rt) = onAfterRender (heap ed rt) \<and>
              dynamicTexture ed3 = None \<and> currentPixels ed3 = None \<and>
              currentRenderTarget ed3 = None" for rs
  proof -
    from renders_previewed [OF p, of rs]
    obtain ed2 where r: "renders rt rs ed1 = Inr ed2"
      and q: "previewed rt (fst (getSize (heap ed rt))) (snd (getSize (heap ed rt)))
              (nextImage ed) (nextRef ed) (onAfterRender (heap ed rt)) ed2"
      by blast
    from restore_previewed [OF q] r show ?thesis by blast
  qed
  from g [of "[]"] c have "\<exists>ed1 ed2. configureRenderTarget ed = Inr ed1 \<and> restorRenderTarget ed1 = Inr ed2 \<and>
            onAfterRender (heap ed2 rt) = onAfterRender (heap ed rt) \<and>
            dynamicTexture ed2 = None \<and> currentPixels ed2 = None \<and>
            currentRenderTarget ed2 = None"
    by simp
  with g c show ?thesis by blast
qed

text \<open>
  The example render target has the callback 7; it is previewed, rendered once and
  restored.
\<close>

theorem configure_restore_round_trip_witness:
  "currentRenderTarget mirrorPreview = Some 2 \<and>
   onAfterRender (heap mirrorPreview 2) = Some (UserCallback 7) \<and>
   (case configureRenderTarget mirrorPreview of
      Inl e \<Rightarrow> False
    | Inr ed1 \<Rightarrow>
        (case renders 2 [(0, [1, 2, 3, 4])] ed1 of
           Inl e \<Rightarrow> False
         | Inr ed2 \<Rightarrow>
             (case restorRenderTarget ed2 of
                Inl e \<Rightarrow> False
              | Inr ed3 \<Rightarrow>
                  onAfterRender (heap ed3 2) = Some (UserCallback 7) \<and> dynamicTexture ed3 = None \<and>
                  currentPixels ed3 = None \<and> currentRenderTarget ed3 = None)))"
proof -
  from configure_restore_round_trip [OF mirrorPreview_fields(1), THEN conjunct2]
  obtain ed1 where c: "configureRenderTarget mirrorPreview = Inr ed1"
    and a: "\<And>rs. \<exists>ed2 ed3. renders 2 rs ed1 = Inr ed2 \<and> restorRenderTarget ed2 = Inr ed3 \<and>
              onAfterRender (heap ed3 2) = onAfterRender (heap mirrorPreview 2) \<and>
              dynamicTexture ed3 = None \<and> currentPixels ed3 = None \<and>
              currentRenderTarget ed3 = None"
    by blast
  from a [of "[(0, [1, 2, 3, 4])]"] c show ?thesis
    by (auto simp: mirrorPreview_fields)
qed

end
